theory Spec2Isabelle
  imports Complex_Main
begin

section \<open>Streaming client: \<^verbatim>\<open>frontend/src/services/websocket.js\<close>\<close>

text \<open>
  The class \<^verbatim>\<open>LandmarkWebSocket\<close> is a record of its fields plus a trace of what it
  does to the outside: the \<^verbatim>\<open>emit\<close> calls, the \<^verbatim>\<open>setTimeout\<close> calls, the console output,
  the \<^verbatim>\<open>WebSocket\<close> objects it constructs and the \<^verbatim>\<open>close()\<close> calls it makes. The four
  handlers installed by \<^verbatim>\<open>connect\<close> are closures over \<^verbatim>\<open>this\<close> only, so each is a function
  on that record, whichever socket fires it.

  JavaScript numbers are doubles; \<^verbatim>\<open>reconnectAttempts\<close> and \<^verbatim>\<open>reconnectDelay\<close> only ever hold
  small non-negative integers (0..5 and 1000..30000), which doubles represent exactly,
  so both are modelled as \<^typ>\<open>nat\<close>.
\<close>

text \<open>The \<^verbatim>\<open>emit(event, data)\<close> calls: one constructor per event name used in the class
  (\<^verbatim>\<open>'connected'\<close>, \<^verbatim>\<open>'landmarks'\<close>, \<^verbatim>\<open>'error'\<close>, \<^verbatim>\<open>'maxReconnectAttemptsReached'\<close>).
  The payload of \<^verbatim>\<open>'error'\<close> (a browser error object) is not modelled.\<close>

datatype 'd event =
    E_connected bool
  | E_landmarks 'd
  | E_error
  | E_maxReconnectAttemptsReached bool

text \<open>The \<^verbatim>\<open>console.log\<close> and \<^verbatim>\<open>console.error\<close> calls, one constructor per call site;
  the reconnect message carries the two interpolated numbers.\<close>

datatype console_entry =
    log_WebSocket_connected
  | log_WebSocket_disconnected
  | log_Attempting_to_reconnect nat nat
  | error_Error_parsing_WebSocket_message
  | error_WebSocket_error
  | error_Max_reconnection_attempts_reached
  | error_Error_creating_WebSocket_connection

record 'd LandmarkWebSocket =
  url :: string
  ws :: "nat option"  \<comment> \<open>\<^verbatim>\<open>this.ws\<close>: the socket constructed last, by its number; \<open>None\<close> is null\<close>
  reconnectAttempts :: nat
  maxReconnectAttempts :: nat
  reconnectDelay :: nat
  emitted :: "'d event list"  \<comment> \<open>the \<^verbatim>\<open>emit\<close> calls so far, oldest first\<close>
  timers :: "nat list"  \<comment> \<open>the delays of the \<^verbatim>\<open>setTimeout(() => this.connect(), d)\<close> calls so far\<close>
  console :: "console_entry list"
  sockets :: nat  \<comment> \<open>how many \<^verbatim>\<open>WebSocket\<close> objects have been constructed\<close>
  closed :: "nat list"  \<comment> \<open>the sockets on which \<^verbatim>\<open>close()\<close> has been called\<close>

definition constructor :: "string \<Rightarrow> 'd LandmarkWebSocket" where
  "constructor u =
     \<lparr> url = u, ws = None, reconnectAttempts = 0, maxReconnectAttempts = 5,
       reconnectDelay = 1000, emitted = [], timers = [], console = [],
       sockets = 0, closed = [] \<rparr>"

text \<open>\<^verbatim>\<open>emit\<close> hands the payload to every listener registered under the event name and
  catches what a listener throws; the model keeps the call itself. The listeners of this
  repository are the handlers of \<^verbatim>\<open>App.jsx\<close>, modelled below.\<close>

definition emit :: "'d event \<Rightarrow> 'd LandmarkWebSocket \<Rightarrow> 'd LandmarkWebSocket" where
  "emit e s = s\<lparr> emitted := emitted s @ [e] \<rparr>"

definition console_out :: "console_entry \<Rightarrow> 'd LandmarkWebSocket \<Rightarrow> 'd LandmarkWebSocket" where
  "console_out c s = s\<lparr> console := console s @ [c] \<rparr>"

definition setTimeout_connect :: "nat \<Rightarrow> 'd LandmarkWebSocket \<Rightarrow> 'd LandmarkWebSocket" where
  "setTimeout_connect d s = s\<lparr> timers := timers s @ [d] \<rparr>"

text \<open>\<^verbatim>\<open>ws.onopen\<close>\<close>

definition onopen :: "'d LandmarkWebSocket \<Rightarrow> 'd LandmarkWebSocket" where
  "onopen s =
     emit (E_connected True)
       ((console_out log_WebSocket_connected s)
          \<lparr> reconnectAttempts := 0, reconnectDelay := 1000 \<rparr>)"

text \<open>\<^verbatim>\<open>ws.onmessage\<close>. \<^verbatim>\<open>JSON.parse\<close> either returns a value or throws; it is a
  parameter returning an option, \<open>None\<close> for the throw, which the handler catches.\<close>

definition onmessage ::
  "(string \<Rightarrow> 'd option) \<Rightarrow> string \<Rightarrow> 'd LandmarkWebSocket \<Rightarrow> 'd LandmarkWebSocket" where
  "onmessage JSON_parse event_data s =
     (case JSON_parse event_data of
        Some data \<Rightarrow> emit (E_landmarks data) s
      | None \<Rightarrow> console_out error_Error_parsing_WebSocket_message s)"

text \<open>\<^verbatim>\<open>ws.onerror\<close>\<close>

definition onerror :: "'d LandmarkWebSocket \<Rightarrow> 'd LandmarkWebSocket" where
  "onerror s = emit E_error (console_out error_WebSocket_error s)"

text \<open>\<^verbatim>\<open>ws.onclose\<close>: the timer is set with the delay as it is before the doubling.\<close>

definition onclose :: "'d LandmarkWebSocket \<Rightarrow> 'd LandmarkWebSocket" where
  "onclose s0 =
     (let s1 = emit (E_connected False) (console_out log_WebSocket_disconnected s0) in
      if reconnectAttempts s1 < maxReconnectAttempts s1 then
        let s2 = s1\<lparr> reconnectAttempts := reconnectAttempts s1 + 1 \<rparr>;
            s3 = console_out
                   (log_Attempting_to_reconnect (reconnectAttempts s2) (maxReconnectAttempts s2)) s2;
            s4 = setTimeout_connect (reconnectDelay s3) s3
        in s4\<lparr> reconnectDelay := min (reconnectDelay s4 * 2) 30000 \<rparr>
      else
        emit (E_maxReconnectAttemptsReached True)
          (console_out error_Max_reconnection_attempts_reached s1))"

text \<open>\<^verbatim>\<open>connect()\<close>. \<^verbatim>\<open>new WebSocket(url)\<close> throws on a URL it rejects and the \<^verbatim>\<open>catch\<close>
  reports it; whether it throws is the parameter \<open>WebSocket_throws\<close>. Otherwise a new
  socket is stored in \<^verbatim>\<open>this.ws\<close> and the four handlers above are installed on it.\<close>

definition connect ::
  "(string \<Rightarrow> bool) \<Rightarrow> 'd LandmarkWebSocket \<Rightarrow> 'd LandmarkWebSocket" where
  "connect WebSocket_throws s =
     (if WebSocket_throws (url s) then
        emit E_error (console_out error_Error_creating_WebSocket_connection s)
      else s\<lparr> ws := Some (sockets s), sockets := sockets s + 1 \<rparr>)"

text \<open>\<^verbatim>\<open>disconnect()\<close>. \<^verbatim>\<open>close()\<close> only starts the closing of the socket: its
  \<^verbatim>\<open>onclose\<close> handler, installed by \<^verbatim>\<open>connect\<close> and never removed, runs afterwards
  as a \<open>Close\<close> step of its own.\<close>

definition disconnect :: "'d LandmarkWebSocket \<Rightarrow> 'd LandmarkWebSocket" where
  "disconnect s =
     (case ws s of
        None \<Rightarrow> s
      | Some w \<Rightarrow>
          s\<lparr> reconnectAttempts := maxReconnectAttempts s, closed := closed s @ [w], ws := None \<rparr>)"

text \<open>What can happen to the client, one step at a time: a call of its interface by the
  application, a handler fired by the browser, or a reconnect timer firing (which calls
  \<^verbatim>\<open>connect\<close>). A run is any sequence of such steps; the browser's own rules (a socket
  opens at most once, closes once) only forbid some of these sequences.\<close>

datatype step =
    Call_connect
  | Call_disconnect
  | Open
  | Message string
  | Error
  | Close
  | Timer

fun do_step ::
  "(string \<Rightarrow> bool) \<Rightarrow> (string \<Rightarrow> 'd option) \<Rightarrow> 'd LandmarkWebSocket \<Rightarrow> step
     \<Rightarrow> 'd LandmarkWebSocket" where
  "do_step T P s Call_connect = connect T s"
| "do_step T P s Call_disconnect = disconnect s"
| "do_step T P s Open = onopen s"
| "do_step T P s (Message m) = onmessage P m s"
| "do_step T P s Error = onerror s"
| "do_step T P s Close = onclose s"
| "do_step T P s Timer = connect T s"

definition run ::
  "(string \<Rightarrow> bool) \<Rightarrow> (string \<Rightarrow> 'd option) \<Rightarrow> 'd LandmarkWebSocket \<Rightarrow> step list
     \<Rightarrow> 'd LandmarkWebSocket" where
  "run T P s steps = foldl (do_step T P) s steps"

subsection \<open>Observations and runs used in the statements\<close>

text \<open>The part of the state the backoff depends on. Calls of \<^verbatim>\<open>connect\<close> and closes act on
  it in the same way whether or not the \<^verbatim>\<open>WebSocket\<close> constructor throws.\<close>

definition backoff_view :: "'d LandmarkWebSocket \<Rightarrow> nat \<times> nat \<times> nat \<times> nat list \<times> nat" where
  "backoff_view s =
     (reconnectAttempts s, maxReconnectAttempts s, reconnectDelay s, timers s,
      count_list (emitted s) (E_maxReconnectAttemptsReached True))"

text \<open>An initial \<^verbatim>\<open>connect()\<close> followed by closes, each reconnect timer firing before the
  next close.\<close>

definition five_closes :: "step list" where
  "five_closes =
     [Call_connect, Close, Timer, Close, Timer, Close, Timer, Close, Timer, Close]"

definition six_closes :: "step list" where
  "six_closes = five_closes @ [Timer, Close]"

text \<open>Everything of the state but the console output, which no handler reads.\<close>

definition observable ::
  "'d LandmarkWebSocket \<Rightarrow>
     (string \<times> nat option \<times> nat \<times> nat) \<times> (nat \<times> 'd event list \<times> nat list) \<times> (nat \<times> nat list)" where
  "observable s =
     ((url s, ws s, reconnectAttempts s, maxReconnectAttempts s),
      (reconnectDelay s, emitted s, timers s), (sockets s, closed s))"

text \<open>A toy \<^verbatim>\<open>JSON.parse\<close> for the witness: it accepts the text \<^verbatim>\<open>{}\<close> only.\<close>

definition parse_braces :: "string \<Rightarrow> unit option" where
  "parse_braces str = (if str = ''{}'' then Some () else None)"

subsection \<open>The browser's side of a run\<close>





section \<open>Application state: \<^verbatim>\<open>frontend/src/App.jsx\<close>\<close>

text \<open>
  The JSON payloads. In this section and the next a JavaScript number is a \<^typ>\<open>real\<close> and
  the arithmetic of the code is read as exact arithmetic: what is claimed there is which
  cell is written when and from what, not the number an operation returns. The numbers the
  program computes, with the rounding of binary64, are the subject of a section of their
  own further down.
  A field that may be null or missing is an option. The coordinates \<^verbatim>\<open>x\<close>, \<^verbatim>\<open>y\<close>, \<^verbatim>\<open>z\<close> of
  a point are named \<open>pt_x\<close>, \<open>pt_y\<close>, \<open>pt_z\<close>, since a one-letter constant would capture the
  variables of every later statement.
\<close>

record LandmarkPoint =
  pt_x :: real
  pt_y :: real
  pt_z :: real

record FaceRotation =
  pitch :: real
  yaw :: real
  roll :: real

record Landmarks =
  left_ear :: "LandmarkPoint option"
  right_ear :: "LandmarkPoint option"
  face_rotation :: "FaceRotation option"

record LandmarkFrame =
  timestamp :: real
  landmarks :: "Landmarks option"
  fps :: "real option"
  face_detected :: "bool option"
  error :: "string option"

record VideoSize =
  width :: real
  height :: real

text \<open>An entry of the list in \<^verbatim>\<open>JewelrySelector\<close> (\<^verbatim>\<open>id\<close> and \<^verbatim>\<open>type\<close> are named \<open>jewelry_id\<close>
  and \<open>jewelry_type\<close>).\<close>

record JewelryDescriptor =
  jewelry_id :: nat
  name :: string
  jewelry_type :: string
  color :: string
  modelPath :: "string option"
  scale :: real

text \<open>JavaScript truthiness of a value that is a string, null or undefined: the empty
  string is falsy, as null and undefined are.\<close>

fun truthy :: "string option \<Rightarrow> bool" where
  "truthy None = False"
| "truthy (Some str) = (str \<noteq> [])"

text \<open>The \<^verbatim>\<open>useState\<close> cells of \<^verbatim>\<open>App\<close>; \<^verbatim>\<open>landmarks\<close> and \<^verbatim>\<open>fps\<close> are named \<open>app_landmarks\<close>
  and \<open>app_fps\<close> to keep them apart from the fields of a frame.\<close>

record App =
  app_landmarks :: "Landmarks option"
  app_fps :: real
  isConnected :: bool
  videoSize :: "VideoSize option"
  selectedJewelry :: "JewelryDescriptor option"
  faceDetected :: bool
  backendError :: "string option"

definition App_init :: App where
  "App_init =
     \<lparr> app_landmarks = None, app_fps = 0, isConnected = False, videoSize = None,
       selectedJewelry = None, faceDetected = False, backendError = None \<rparr>"

text \<open>\<^verbatim>\<open>ws.on('connected', ...)\<close>\<close>

definition on_connected :: "bool \<Rightarrow> App \<Rightarrow> App" where
  "on_connected status a =
     (let a1 = a\<lparr> isConnected := status \<rparr> in
      if status then a1\<lparr> backendError := None \<rparr> else a1)"

text \<open>\<^verbatim>\<open>ws.on('landmarks', ...)\<close>. \<^verbatim>\<open>data.landmarks || null\<close> is the landmarks object or
  null; \<^verbatim>\<open>data.fps || 0\<close> and \<^verbatim>\<open>data.face_detected || false\<close> replace a missing (or
  falsy) value by the default.\<close>

definition on_landmarks :: "LandmarkFrame \<Rightarrow> App \<Rightarrow> App" where
  "on_landmarks data a =
     (if truthy (error data) then a\<lparr> backendError := error data \<rparr>
      else a\<lparr> app_landmarks := landmarks data,
              app_fps := (case fps data of None \<Rightarrow> 0 | Some v \<Rightarrow> v),
              faceDetected := (case face_detected data of None \<Rightarrow> False | Some b \<Rightarrow> b),
              backendError := None \<rparr>)"

text \<open>\<^verbatim>\<open>ws.on('maxReconnectAttemptsReached', ...)\<close>\<close>

definition on_maxReconnectAttemptsReached :: "App \<Rightarrow> App" where
  "on_maxReconnectAttemptsReached a =
     a\<lparr> backendError := Some (''Cannot connect to backend server. '' @
            ''Please ensure the backend is running on http://localhost:8000'') \<rparr>"

definition handleVideoReady :: "VideoSize \<Rightarrow> App \<Rightarrow> App" where
  "handleVideoReady vsize a = a\<lparr> videoSize := Some vsize \<rparr>"

definition handleJewelrySelect :: "JewelryDescriptor \<Rightarrow> App \<Rightarrow> App" where
  "handleJewelrySelect jewelry a = a\<lparr> selectedJewelry := Some jewelry \<rparr>"

section \<open>Overlay: \<^verbatim>\<open>frontend/src/components/AROverlay.jsx\<close> and its model-loading variant\<close>

text \<open>
  The repository holds two versions of the component \<^verbatim>\<open>AROverlay\<close>: the one of
  \<^verbatim>\<open>components/AROverlay.jsx\<close>, which draws \<^verbatim>\<open>SimpleEarring\<close>, and a later one that adds
  the cell \<^verbatim>\<open>modelError\<close> and draws \<^verbatim>\<open>Earring\<close> (a loaded model or the procedural
  fallback). Their \<^verbatim>\<open>useState\<close> cells and their \<^verbatim>\<open>useEffect\<close> are the same text, so the
  state is one extensible record and the effect is one function on it.
  A JavaScript array of three numbers is a triple.
\<close>

type_synonym vec3 = "real \<times> real \<times> real"

record AROverlay_state =
  leftEarPos :: vec3
  rightEarPos :: vec3
  faceRotation :: vec3
  isVisible :: bool

record AROverlay_model_state = AROverlay_state +
  modelError :: bool

definition AROverlay_init :: AROverlay_state where
  "AROverlay_init =
     \<lparr> leftEarPos = (0, 0, -5), rightEarPos = (0, 0, -5), faceRotation = (0, 0, 0),
       isVisible = False \<rparr>"

definition AROverlay_model_init :: AROverlay_model_state where
  "AROverlay_model_init =
     \<lparr> leftEarPos = (0, 0, -5), rightEarPos = (0, 0, -5), faceRotation = (0, 0, 0),
       isVisible = False, modelError = False \<rparr>"

text \<open>The body of \<^verbatim>\<open>useEffect(..., [landmarks, videoSize])\<close>, with the local constants
  of the source. The arithmetic is exact here; \<^verbatim>\<open>videoSize.width / videoSize.height\<close> with
  a height of 0 is Infinity or NaN in JavaScript and 0 in HOL. The effect on binary64
  numbers, division by zero included, is \<open>AROverlay_effect64\<close> below.\<close>

definition AROverlay_effect ::
  "Landmarks option \<Rightarrow> VideoSize option \<Rightarrow> 'a AROverlay_state_scheme
     \<Rightarrow> 'a AROverlay_state_scheme" where
  "AROverlay_effect lms vsize st =
     (case lms of
        None \<Rightarrow> st\<lparr> isVisible := False \<rparr>
      | Some lm \<Rightarrow>
          (case left_ear lm of
             None \<Rightarrow> st\<lparr> isVisible := False \<rparr>
           | Some leftEar \<Rightarrow>
               (case right_ear lm of
                  None \<Rightarrow> st\<lparr> isVisible := False \<rparr>
                | Some rightEar \<Rightarrow>
                    (let st1 = st\<lparr> isVisible := True \<rparr>;
                         aspect = (case vsize of Some v \<Rightarrow> width v / height v | None \<Rightarrow> 16 / 9);
                         leftX = - (pt_x leftEar * 2 - 1) * aspect;
                         leftY = - (pt_y leftEar * 2 - 1);
                         leftZ = pt_z leftEar * 2;
                         rightX = - (pt_x rightEar * 2 - 1) * aspect;
                         rightY = - (pt_y rightEar * 2 - 1);
                         rightZ = pt_z rightEar * 2;
                         st2 = st1\<lparr> leftEarPos := (leftX, leftY, leftZ) \<rparr>;
                         st3 = st2\<lparr> rightEarPos := (rightX, rightY, rightZ) \<rparr>
                     in (case face_rotation lm of
                           Some r \<Rightarrow> st3\<lparr> faceRotation := (pitch r, yaw r, roll r) \<rparr>
                         | None \<Rightarrow> st3)))))"

text \<open>\<^verbatim>\<open>onError\<close> of the \<^verbatim>\<open>Canvas\<close> in the model-loading variant: the only place that
  writes \<^verbatim>\<open>modelError\<close>.\<close>

definition Canvas_onError :: "AROverlay_model_state \<Rightarrow> AROverlay_model_state" where
  "Canvas_onError st = st\<lparr> modelError := True \<rparr>"

subsection \<open>What the components draw\<close>

text \<open>The scene elements the components return. Of a material only the colour is kept:
  the other parameters (metalness, roughness, emissive colour, wireframe) are constants of
  the source. A mesh without a \<^verbatim>\<open>position\<close> sits at the origin of its group.\<close>

datatype geometry =
    torusGeometry real real nat nat
  | sphereGeometry real nat nat

datatype material =
    meshStandardMaterial string
  | meshBasicMaterial string

datatype element =
    mesh vec3 geometry material
  | group_node vec3 vec3 "element list"  \<comment> \<open>\<^verbatim>\<open><group position rotation>\<close>\<close>
  | primitive string vec3 vec3 real  \<comment> \<open>the loaded scene of a model path, placed\<close>
  | Suspense element element  \<comment> \<open>\<^verbatim>\<open><Suspense fallback={...}>\<close> and its child\<close>

definition SimpleEarring :: "vec3 \<Rightarrow> vec3 \<Rightarrow> real \<Rightarrow> element" where
  "SimpleEarring position rotation sc =
     group_node position rotation
       [ mesh (0, 0, 0) (torusGeometry (0.015 * sc) (0.003 * sc) 16 32)
           (meshStandardMaterial ''#FFD700''),
         mesh (0, - 0.02 * sc, 0) (sphereGeometry (0.005 * sc) 16 16)
           (meshStandardMaterial ''#FF6B9D'') ]"

text \<open>\<^verbatim>\<open>ModelEarring\<close> draws the scene that \<^verbatim>\<open>useGLTF(modelPath)\<close> loads; the loading itself
  belongs to the library.\<close>

definition ModelEarring :: "string \<Rightarrow> vec3 \<Rightarrow> vec3 \<Rightarrow> real \<Rightarrow> element" where
  "ModelEarring path position rotation sc = primitive path position rotation sc"

definition ProceduralEarring :: "vec3 \<Rightarrow> vec3 \<Rightarrow> real \<Rightarrow> string \<Rightarrow> element" where
  "ProceduralEarring position rotation sc col =
     group_node position rotation
       [ mesh (0, 0, 0) (torusGeometry (0.015 * sc) (0.003 * sc) 16 32)
           (meshStandardMaterial col),
         mesh (0, - 0.02 * sc, 0) (sphereGeometry (0.005 * sc) 16 16)
           (meshStandardMaterial ''#FF6B9D'') ]"

definition LoadingEarring :: "vec3 \<Rightarrow> element" where
  "LoadingEarring position =
     mesh position (sphereGeometry 0.01 8 8) (meshBasicMaterial ''#888888'')"

text \<open>\<^verbatim>\<open>Earring\<close>: \<^verbatim>\<open>if (useFallback || !modelPath)\<close> the procedural earring, else the model
  inside a \<^verbatim>\<open>Suspense\<close>. A path that is null, undefined or empty is falsy.\<close>

definition Earring ::
  "string option \<Rightarrow> vec3 \<Rightarrow> vec3 \<Rightarrow> real \<Rightarrow> string \<Rightarrow> bool \<Rightarrow> element" where
  "Earring path position rotation sc col useFallback =
     (case path of
        None \<Rightarrow> ProceduralEarring position rotation sc col
      | Some p \<Rightarrow>
          if useFallback \<or> \<not> truthy (Some p) then ProceduralEarring position rotation sc col
          else Suspense (LoadingEarring position) (ModelEarring p position rotation sc))"

text \<open>What \<^verbatim>\<open>AROverlay\<close> of \<^verbatim>\<open>components/AROverlay.jsx\<close> returns inside its \<^verbatim>\<open>Canvas\<close>, after
  the lights (which never change): the two earrings when \<^verbatim>\<open>isVisible\<close>, nothing otherwise.
  \<^verbatim>\<open>Math.PI\<close> is \<^term>\<open>pi\<close>.\<close>

definition AROverlay_render :: "'a AROverlay_state_scheme \<Rightarrow> element list" where
  "AROverlay_render st =
     (case faceRotation st of (f0, f1, f2) \<Rightarrow>
        if isVisible st then
          [ SimpleEarring (leftEarPos st) (f0 * 0.5, f1 * 0.5, f2) 1.5,
            SimpleEarring (rightEarPos st) (f0 * 0.5, pi + f1 * 0.5, - f2) 1.5 ]
        else [])"

text \<open>The model-loading variant. \<^verbatim>\<open>selectedJewelry?.scale || 1.5\<close> and
  \<^verbatim>\<open>selectedJewelry?.color || '#FFD700'\<close> take the default when nothing is selected and
  also when the value is falsy: a scale of 0, an empty colour.\<close>

definition jewelryScale :: "JewelryDescriptor option \<Rightarrow> real" where
  "jewelryScale sel =
     (case sel of None \<Rightarrow> 1.5 | Some j \<Rightarrow> if scale j = 0 then 1.5 else scale j)"

definition jewelryColor :: "JewelryDescriptor option \<Rightarrow> string" where
  "jewelryColor sel =
     (case sel of None \<Rightarrow> ''#FFD700'' | Some j \<Rightarrow> if color j = [] then ''#FFD700'' else color j)"

definition AROverlay_model_render ::
  "JewelryDescriptor option \<Rightarrow> AROverlay_model_state \<Rightarrow> element list" where
  "AROverlay_model_render sel st =
     (let path = (case sel of None \<Rightarrow> None | Some j \<Rightarrow> modelPath j);
          useFallback = (\<not> truthy path \<or> modelError st)
      in case faceRotation st of (f0, f1, f2) \<Rightarrow>
           if isVisible st then
             [ Earring path (leftEarPos st) (f0 * 0.5, f1 * 0.5, f2)
                 (jewelryScale sel) (jewelryColor sel) useFallback,
               Earring path (rightEarPos st) (f0 * 0.5, pi + f1 * 0.5, - f2)
                 (jewelryScale sel) (jewelryColor sel) useFallback ]
           else [])"

text \<open>What happens to the model-loading overlay between two renders: its effect runs on
  new props, or the \<^verbatim>\<open>Canvas\<close> reports an error.\<close>

datatype overlay_step =
    Props "Landmarks option" "VideoSize option"
  | CanvasError

fun do_overlay_step :: "AROverlay_model_state \<Rightarrow> overlay_step \<Rightarrow> AROverlay_model_state" where
  "do_overlay_step st (Props lms vsize) = AROverlay_effect lms vsize st"
| "do_overlay_step st CanvasError = Canvas_onError st"

definition overlay_run :: "AROverlay_model_state \<Rightarrow> overlay_step list \<Rightarrow> AROverlay_model_state" where
  "overlay_run st steps = foldl do_overlay_step st steps"

subsection \<open>\<^verbatim>\<open>App\<close> and its overlay together\<close>

text \<open>
  \<^verbatim>\<open>App\<close> renders \<^verbatim>\<open><AROverlay landmarks={landmarks} videoSize={videoSize} />\<close>. React
  runs the overlay's effect after a render in which one of the two props is a different
  value (\<^verbatim>\<open>Object.is\<close>). After the handler of \<^verbatim>\<open>'landmarks'\<close>: a frame with an error leaves
  both props as they are; otherwise \<^verbatim>\<open>landmarks\<close> is a freshly parsed object, different
  from every earlier one, unless it is null and was null before.
\<close>

type_synonym ui = "App \<times> AROverlay_state"

definition mount :: ui where
  "mount = (App_init, AROverlay_effect None None AROverlay_init)"

definition receive_frame :: "LandmarkFrame \<Rightarrow> ui \<Rightarrow> ui" where
  "receive_frame data u =
     (let a = fst u; a' = on_landmarks data a;
          props_changed =
            (\<not> truthy (error data) \<and> \<not> (app_landmarks a = None \<and> app_landmarks a' = None))
      in (a', if props_changed then AROverlay_effect (app_landmarks a') (videoSize a') (snd u)
              else snd u))"

definition video_ready :: "VideoSize \<Rightarrow> ui \<Rightarrow> ui" where
  "video_ready vsize u =
     (let a' = handleVideoReady vsize (fst u)
      in (a', AROverlay_effect (app_landmarks a') (videoSize a') (snd u)))"

text \<open>The overlay has seen the landmarks that \<^verbatim>\<open>App\<close> holds: its visibility is the one its
  effect computes from them. This holds after mounting and is kept by every step.\<close>

definition both_ears :: "Landmarks option \<Rightarrow> bool" where
  "both_ears lms =
     (case lms of None \<Rightarrow> False | Some lm \<Rightarrow> left_ear lm \<noteq> None \<and> right_ear lm \<noteq> None)"

definition in_sync :: "ui \<Rightarrow> bool" where
  "in_sync u = (isVisible (snd u) = both_ears (app_landmarks (fst u)))"

subsection \<open>Names for the statements\<close>



text \<open>The frame of the specification's scenario, and variations of it.\<close>

definition scenario_landmarks :: Landmarks where
  "scenario_landmarks =
     \<lparr> left_ear = Some \<lparr> pt_x = 0.3, pt_y = 0.4, pt_z = 0.1 \<rparr>,
       right_ear = Some \<lparr> pt_x = 0.7, pt_y = 0.4, pt_z = 0.1 \<rparr>,
       face_rotation = None \<rparr>"

definition scenario_frame :: LandmarkFrame where
  "scenario_frame =
     \<lparr> timestamp = 0, landmarks = Some scenario_landmarks, fps = Some 30,
       face_detected = Some True, error = None \<rparr>"

definition frame_face_not_detected :: LandmarkFrame where
  "frame_face_not_detected = scenario_frame\<lparr> face_detected := Some False \<rparr>"

definition frame_empty_error :: LandmarkFrame where
  "frame_empty_error = scenario_frame\<lparr> error := Some [] \<rparr>"

definition frame_backend_error :: LandmarkFrame where
  "frame_backend_error =
     \<lparr> timestamp = 1, landmarks = None, fps = None, face_detected = None,
       error = Some ''camera unavailable'' \<rparr>"

definition turned_landmarks :: Landmarks where
  "turned_landmarks =
     scenario_landmarks\<lparr> face_rotation := Some \<lparr> pitch = 0.2, yaw = 0.4, roll = 0.1 \<rparr> \<rparr>"

definition moved_landmarks :: Landmarks where
  "moved_landmarks =
     \<lparr> left_ear = Some \<lparr> pt_x = 0.25, pt_y = 0.5, pt_z = 0 \<rparr>,
       right_ear = Some \<lparr> pt_x = 0.75, pt_y = 0.5, pt_z = 0 \<rparr>,
       face_rotation = None \<rparr>"

definition square_video :: VideoSize where
  "square_video = \<lparr> width = 720, height = 720 \<rparr>"

text \<open>Two entries of the list in \<^verbatim>\<open>JewelrySelector\<close>, and a descriptor without a model
  path and with a scale of 0.\<close>

definition gold_hoops :: JewelryDescriptor where
  "gold_hoops =
     \<lparr> jewelry_id = 1, name = ''Gold Hoops'', jewelry_type = ''earrings'', color = ''#FFD700'',
       modelPath = Some ''/models/gold-hoop-earring.glb'', scale = 1.5 \<rparr>"

definition silver_studs :: JewelryDescriptor where
  "silver_studs =
     \<lparr> jewelry_id = 2, name = ''Silver Studs'', jewelry_type = ''earrings'', color = ''#C0C0C0'',
       modelPath = Some ''/models/silver-stud-earring.glb'', scale = 1.2 \<rparr>"

definition flat_ring :: JewelryDescriptor where
  "flat_ring =
     \<lparr> jewelry_id = 5, name = ''Flat Ring'', jewelry_type = ''earrings'', color = ''#C0C0C0'',
       modelPath = None, scale = 0 \<rparr>"

text \<open>The model-loading overlay showing the scenario's landmarks.\<close>

definition tracking :: AROverlay_model_state where
  "tracking = AROverlay_effect (Some scenario_landmarks) (Some square_video) AROverlay_model_init"

text \<open>What the model-loading overlay returns when both earrings are the procedural
  fallback.\<close>

definition fallback_render ::
  "JewelryDescriptor option \<Rightarrow> AROverlay_model_state \<Rightarrow> element list" where
  "fallback_render sel st =
     (case faceRotation st of (f0, f1, f2) \<Rightarrow>
        if isVisible st then
          [ ProceduralEarring (leftEarPos st) (f0 * 0.5, f1 * 0.5, f2)
              (jewelryScale sel) (jewelryColor sel),
            ProceduralEarring (rightEarPos st) (f0 * 0.5, pi + f1 * 0.5, - f2)
              (jewelryScale sel) (jewelryColor sel) ]
        else [])"

section \<open>The effect's arithmetic in binary64\<close>

text \<open>
  The overlay model above reads the arithmetic of the effect as exact arithmetic on reals;
  the claims stated on it say which cell is written when and from what, and where a
  position appears in one of their examples it is the exact one. A JavaScript number is an
  IEEE 754 binary64 value, and this section gives the effect on such values; the claim
  about the numbers the program computes is stated on it.

  A number is finite, with a sign (true for negative) and a magnitude that is not
  negative, so that there are two zeros, or it is one of the two infinities, or NaN. The
  result of an operation is the exact result rounded to the nearest binary64 value, ties
  to the even significand: 53 significant bits from the exponent -1022 upwards, multiples
  of \<open>2^-1074\<close> below, and infinity from \<open>2^1024\<close> on.
\<close>

datatype number = Finite bool real | Infinity bool | NaN

text \<open>\<open>pow2 k\<close> is \<open>2^k\<close> for an integer \<open>k\<close>. \<open>binade m\<close> is the exponent of the magnitude \<open>m\<close>:
  the \<open>e\<close> with \<open>2^e \<le> m < 2^(e+1)\<close>, kept within -1022 and 1023, found by counting up from
  -1022.\<close>

definition pow2 :: "int \<Rightarrow> real" where
  "pow2 k = (if 0 \<le> k then 2 ^ nat k else 1 / 2 ^ nat (- k))"

fun binade_from :: "nat \<Rightarrow> int \<Rightarrow> real \<Rightarrow> int" where
  "binade_from 0 e m = e"
| "binade_from (Suc k) e m = (if pow2 (e + 1) \<le> m then binade_from k (e + 1) m else e)"

definition binade :: "real \<Rightarrow> int" where
  "binade m = binade_from 2045 (- 1022) m"

text \<open>The nearest integer, the even one of two that are equally near.\<close>

definition nearest_even :: "real \<Rightarrow> int" where
  "nearest_even r =
     (let f = \<lfloor>r\<rfloor> in
      if r - of_int f < 1 / 2 then f
      else if 1 / 2 < r - of_int f then f + 1
      else if even f then f else f + 1)"

text \<open>A magnitude rounded to a multiple of the spacing of its binade, and the number it
  makes with a sign.\<close>

definition round_mag :: "real \<Rightarrow> real" where
  "round_mag m = (let q = pow2 (binade m - 52) in of_int (nearest_even (m / q)) * q)"

definition binary64 :: "bool \<Rightarrow> real \<Rightarrow> number" where
  "binary64 negative m =
     (let r = round_mag m in if 2 ^ 1024 \<le> r then Infinity negative else Finite negative r)"

text \<open>The number a decimal literal of the source or of a JSON text stands for. A literal
  of the source has no sign: \<^verbatim>\<open>-5\<close> is the negation of the literal 5.\<close>

definition lit :: "real \<Rightarrow> number" where
  "lit x = binary64 (x < 0) \<bar>x\<bar>"

text \<open>The operations \<^verbatim>\<open>-a\<close>, \<^verbatim>\<open>a + b\<close>, \<^verbatim>\<open>a - b\<close>, \<^verbatim>\<open>a * b\<close> and \<^verbatim>\<open>a / b\<close>. A sum that is exactly zero
  is \<open>-0\<close> only when both summands are negative zeros; a difference is the sum with the
  negated number.\<close>

definition signed :: "bool \<Rightarrow> real \<Rightarrow> real" where
  "signed negative m = (if negative then - m else m)"

fun num_neg :: "number \<Rightarrow> number" where
  "num_neg (Finite sa ma) = Finite (\<not> sa) ma"
| "num_neg (Infinity sa) = Infinity (\<not> sa)"
| "num_neg NaN = NaN"

fun num_add :: "number \<Rightarrow> number \<Rightarrow> number" where
  "num_add (Finite sa ma) (Finite sb mb) =
     (let v = signed sa ma + signed sb mb in
      if v = 0 then Finite (sa \<and> sb) 0 else binary64 (v < 0) \<bar>v\<bar>)"
| "num_add (Finite sa ma) (Infinity sb) = Infinity sb"
| "num_add (Infinity sa) (Finite sb mb) = Infinity sa"
| "num_add (Infinity sa) (Infinity sb) = (if sa = sb then Infinity sa else NaN)"
| "num_add NaN b = NaN"
| "num_add a NaN = NaN"

definition num_sub :: "number \<Rightarrow> number \<Rightarrow> number" where
  "num_sub a b = num_add a (num_neg b)"

fun num_mul :: "number \<Rightarrow> number \<Rightarrow> number" where
  "num_mul (Finite sa ma) (Finite sb mb) = binary64 (sa \<noteq> sb) (ma * mb)"
| "num_mul (Finite sa ma) (Infinity sb) = (if ma = 0 then NaN else Infinity (sa \<noteq> sb))"
| "num_mul (Infinity sa) (Finite sb mb) = (if mb = 0 then NaN else Infinity (sa \<noteq> sb))"
| "num_mul (Infinity sa) (Infinity sb) = Infinity (sa \<noteq> sb)"
| "num_mul NaN b = NaN"
| "num_mul a NaN = NaN"

fun num_div :: "number \<Rightarrow> number \<Rightarrow> number" where
  "num_div (Finite sa ma) (Finite sb mb) =
     (if mb = 0 then (if ma = 0 then NaN else Infinity (sa \<noteq> sb))
      else binary64 (sa \<noteq> sb) (ma / mb))"
| "num_div (Finite sa ma) (Infinity sb) = Finite (sa \<noteq> sb) 0"
| "num_div (Infinity sa) (Finite sb mb) = Infinity (sa \<noteq> sb)"
| "num_div (Infinity sa) (Infinity sb) = NaN"
| "num_div NaN b = NaN"
| "num_div a NaN = NaN"

text \<open>The payloads, the state and the effect of \<^verbatim>\<open>AROverlay\<close> once more, with binary64
  numbers in the place of reals; the names carry the suffix \<open>64\<close>.\<close>

record LandmarkPoint64 =
  x64 :: number
  y64 :: number
  z64 :: number

record FaceRotation64 =
  pitch64 :: number
  yaw64 :: number
  roll64 :: number

record Landmarks64 =
  left_ear64 :: "LandmarkPoint64 option"
  right_ear64 :: "LandmarkPoint64 option"
  face_rotation64 :: "FaceRotation64 option"

record VideoSize64 =
  width64 :: number
  height64 :: number

type_synonym vec64 = "number \<times> number \<times> number"

record AROverlay_state64 =
  leftEarPos64 :: vec64
  rightEarPos64 :: vec64
  faceRotation64 :: vec64
  isVisible64 :: bool

definition AROverlay_init64 :: AROverlay_state64 where
  "AROverlay_init64 =
     \<lparr> leftEarPos64 = (lit 0, lit 0, num_neg (lit 5)),
       rightEarPos64 = (lit 0, lit 0, num_neg (lit 5)),
       faceRotation64 = (lit 0, lit 0, lit 0), isVisible64 = False \<rparr>"

definition AROverlay_effect64 ::
  "Landmarks64 option \<Rightarrow> VideoSize64 option \<Rightarrow> AROverlay_state64 \<Rightarrow> AROverlay_state64" where
  "AROverlay_effect64 lms vsize st =
     (case lms of
        None \<Rightarrow> st\<lparr> isVisible64 := False \<rparr>
      | Some lm \<Rightarrow>
          (case left_ear64 lm of
             None \<Rightarrow> st\<lparr> isVisible64 := False \<rparr>
           | Some leftEar \<Rightarrow>
               (case right_ear64 lm of
                  None \<Rightarrow> st\<lparr> isVisible64 := False \<rparr>
                | Some rightEar \<Rightarrow>
                    (let st1 = st\<lparr> isVisible64 := True \<rparr>;
                         aspect = (case vsize of
                                     Some v \<Rightarrow> num_div (width64 v) (height64 v)
                                   | None \<Rightarrow> num_div (lit 16) (lit 9));
                         leftX = num_mul (num_neg (num_sub (num_mul (x64 leftEar) (lit 2)) (lit 1))) aspect;
                         leftY = num_neg (num_sub (num_mul (y64 leftEar) (lit 2)) (lit 1));
                         leftZ = num_mul (z64 leftEar) (lit 2);
                         rightX = num_mul (num_neg (num_sub (num_mul (x64 rightEar) (lit 2)) (lit 1))) aspect;
                         rightY = num_neg (num_sub (num_mul (y64 rightEar) (lit 2)) (lit 1));
                         rightZ = num_mul (z64 rightEar) (lit 2);
                         st2 = st1\<lparr> leftEarPos64 := (leftX, leftY, leftZ) \<rparr>;
                         st3 = st2\<lparr> rightEarPos64 := (rightX, rightY, rightZ) \<rparr>
                     in (case face_rotation64 lm of
                           Some r \<Rightarrow> st3\<lparr> faceRotation64 := (pitch64 r, yaw64 r, roll64 r) \<rparr>
                         | None \<Rightarrow> st3)))))"

text \<open>The landmarks of the specification's scenario as the parsed frame holds them, and a
  video of equal width and height.\<close>

definition scenario_landmarks64 :: Landmarks64 where
  "scenario_landmarks64 =
     \<lparr> left_ear64 = Some \<lparr> x64 = lit 0.3, y64 = lit 0.4, z64 = lit 0.1 \<rparr>,
       right_ear64 = Some \<lparr> x64 = lit 0.7, y64 = lit 0.4, z64 = lit 0.1 \<rparr>,
       face_rotation64 = None \<rparr>"

definition square_video64 :: VideoSize64 where
  "square_video64 = \<lparr> width64 = lit 720, height64 = lit 720 \<rparr>"

section \<open>Properties of the streaming client\<close>

lemmas ws_defs = onopen_def onmessage_def onerror_def onclose_def connect_def disconnect_def
  emit_def console_out_def setTimeout_connect_def

lemma run_Nil: "run T P s [] = s"
  by (simp add: run_def)

lemma run_Cons: "run T P s (a # steps) = run T P (do_step T P s a) steps"
  by (simp add: run_def)

lemma run_append: "run T P s (xs @ ys) = run T P (run T P s xs) ys"
  by (simp add: run_def)




text \<open>Once the counter has reached the maximum, only \<^verbatim>\<open>onopen\<close> takes it down again, and
  until then no step sets a timer.\<close>

lemma do_step_exhausted:
  assumes "a \<noteq> Open" and "maxReconnectAttempts s \<le> reconnectAttempts s"
  shows "timers (do_step T P s a) = timers s \<and>
         maxReconnectAttempts (do_step T P s a) \<le> reconnectAttempts (do_step T P s a)"
  using assms by (cases a) (simp_all add: ws_defs Let_def split: option.split)

lemma run_exhausted:
  assumes "Open \<notin> set steps" and "maxReconnectAttempts s \<le> reconnectAttempts s"
  shows "timers (run T P s steps) = timers s \<and>
         maxReconnectAttempts (run T P s steps) \<le> reconnectAttempts (run T P s steps)"
  using assms
proof (induction steps arbitrary: s)
  case Nil
  then show ?case by (simp add: run_Nil)
next
  case (Cons a steps)
  from Cons.prems have a: "a \<noteq> Open" and rest: "Open \<notin> set steps" by auto
  from do_step_exhausted[OF a Cons.prems(2), of T P]
  have t: "timers (do_step T P s a) = timers s"
    and m: "maxReconnectAttempts (do_step T P s a) \<le> reconnectAttempts (do_step T P s a)"
    by simp_all
  from Cons.IH[OF rest m] t show ?case by (simp add: run_Cons)
qed

lemma backoff_view_step:
  assumes "backoff_view s = backoff_view s'" and "a \<in> {Call_connect, Timer, Close}"
  shows "backoff_view (do_step T P s a) = backoff_view (do_step T' P' s' a)"
  using assms by (auto simp add: backoff_view_def ws_defs Let_def)

lemma backoff_view_run:
  assumes "backoff_view s = backoff_view s'" and "set steps \<subseteq> {Call_connect, Timer, Close}"
  shows "backoff_view (run T P s steps) = backoff_view (run T' P' s' steps)"
  using assms
proof (induction steps arbitrary: s s')
  case Nil
  then show ?case by (simp add: run_Nil)
next
  case (Cons a steps)
  from Cons.prems(2) have a: "a \<in> {Call_connect, Timer, Close}"
    and rest: "set steps \<subseteq> {Call_connect, Timer, Close}" by auto
  have "backoff_view (do_step T P s a) = backoff_view (do_step T' P' s' a)"
    by (rule backoff_view_step[OF Cons.prems(1) a])
  from Cons.IH[OF this rest] show ?case by (simp add: run_Cons)
qed

lemma five_closes_view:
  "backoff_view (run T P (constructor u) five_closes) =
     (5, 5, 30000, [1000, 2000, 4000, 8000, 16000], 0)"
proof -
  have "backoff_view (run T P (constructor u) five_closes) =
        backoff_view (run (\<lambda>_. False) (\<lambda>_. None) (constructor u :: unit LandmarkWebSocket) five_closes)"
    by (rule backoff_view_run) (simp_all add: backoff_view_def constructor_def five_closes_def)
  also have "\<dots> = (5, 5, 30000, [1000, 2000, 4000, 8000, 16000], 0)"
    by (simp add: backoff_view_def five_closes_def run_def constructor_def ws_defs Let_def)
  finally show ?thesis .
qed

lemma six_closes_view:
  "backoff_view (run T P (constructor u) six_closes) =
     (5, 5, 30000, [1000, 2000, 4000, 8000, 16000], 1)"
proof -
  have "backoff_view (run T P (constructor u) six_closes) =
        backoff_view (run (\<lambda>_. False) (\<lambda>_. None) (constructor u :: unit LandmarkWebSocket) six_closes)"
    by (rule backoff_view_run)
       (simp_all add: backoff_view_def constructor_def six_closes_def five_closes_def)
  also have "\<dots> = (5, 5, 30000, [1000, 2000, 4000, 8000, 16000], 1)"
    by (simp add: backoff_view_def six_closes_def five_closes_def run_def constructor_def
          ws_defs Let_def)
  finally show ?thesis .
qed

lemma observable_step:
  assumes "observable s = observable s'"
  shows "observable (do_step T P s a) = observable (do_step T P s' a)"
proof (cases a)
  case Call_connect
  with assms show ?thesis by (simp add: observable_def connect_def emit_def console_out_def)
next
  case Call_disconnect
  with assms show ?thesis by (simp add: observable_def disconnect_def split: option.split)
next
  case Open
  with assms show ?thesis by (simp add: observable_def onopen_def emit_def console_out_def)
next
  case (Message m)
  with assms show ?thesis
    by (simp add: observable_def onmessage_def emit_def console_out_def split: option.split)
next
  case Error
  with assms show ?thesis by (simp add: observable_def onerror_def emit_def console_out_def)
next
  case Close
  with assms show ?thesis
    by (simp add: observable_def onclose_def Let_def emit_def console_out_def
          setTimeout_connect_def)
next
  case Timer
  with assms show ?thesis by (simp add: observable_def connect_def emit_def console_out_def)
qed

lemma observable_run:
  assumes "observable s = observable s'"
  shows "observable (run T P s steps) = observable (run T P s' steps)"
  using assms
proof (induction steps arbitrary: s s')
  case Nil
  then show ?case by (simp add: run_Nil)
next
  case (Cons a steps)
  have "observable (do_step T P s a) = observable (do_step T P s' a)"
    by (rule observable_step[OF Cons.prems])
  from Cons.IH[OF this] show ?case by (simp add: run_Cons)
qed










text \<open>
  Claim C3, as the code has it. After the initial \<^verbatim>\<open>connect()\<close> and five closes in a row
  without an open, no \<^verbatim>\<open>maxReconnectAttemptsReached\<close> has been emitted yet and the fifth
  reconnect has just been scheduled (after 1000, 2000, 4000, 8000 and 16000 ms). It is the
  sixth close in a row, the one of the fifth reconnect, that emits the event, exactly
  once, and schedules nothing; from then on no step schedules a sixth reconnect unless a
  connection opens.
\<close>

theorem C3_six_closes:
  "count_list (emitted (run T P (constructor u) five_closes))
     (E_maxReconnectAttemptsReached True) = 0 \<and>
   timers (run T P (constructor u) five_closes) = [1000, 2000, 4000, 8000, 16000] \<and>
   count_list (emitted (run T P (constructor u) six_closes))
     (E_maxReconnectAttemptsReached True) = 1 \<and>
   timers (run T P (constructor u) six_closes) = [1000, 2000, 4000, 8000, 16000] \<and>
   (\<forall>later. Open \<notin> set later \<longrightarrow>
      timers (run T P (run T P (constructor u) six_closes) later) =
        [1000, 2000, 4000, 8000, 16000])"
proof -
  let ?s5 = "run T P (constructor u) five_closes" and ?s6 = "run T P (constructor u) six_closes"
  have v5: "backoff_view ?s5 = (5, 5, 30000, [1000, 2000, 4000, 8000, 16000], 0)"
    by (rule five_closes_view)
  have v6: "backoff_view ?s6 = (5, 5, 30000, [1000, 2000, 4000, 8000, 16000], 1)"
    by (rule six_closes_view)
  have ex: "maxReconnectAttempts ?s6 \<le> reconnectAttempts ?s6"
    using v6 by (simp add: backoff_view_def)
  have ever: "\<forall>later. Open \<notin> set later \<longrightarrow>
      timers (run T P ?s6 later) = [1000, 2000, 4000, 8000, 16000]"
  proof (intro allI impI)
    fix later :: "step list" assume o: "Open \<notin> set later"
    have "timers (run T P ?s6 later) = timers ?s6"
      using run_exhausted[OF o ex] by simp
    also have "\<dots> = [1000, 2000, 4000, 8000, 16000]"
      using v6 by (simp add: backoff_view_def)
    finally show "timers (run T P ?s6 later) = [1000, 2000, 4000, 8000, 16000]" .
  qed
  from v5 v6 ever show ?thesis by (simp add: backoff_view_def)
qed

theorem C3_six_closes_witness:
  "Open \<notin> set [Close, Call_connect, Close, Error] \<and>
   timers (run (\<lambda>_. False) (\<lambda>_. None)
     (run (\<lambda>_. False) (\<lambda>_. None)
        (constructor ''ws://localhost:8000/ws/landmarks'' :: unit LandmarkWebSocket) six_closes)
     [Close, Call_connect, Close, Error]) = [1000, 2000, 4000, 8000, 16000]"
proof -
  have o: "Open \<notin> set [Close, Call_connect, Close, Error]" by simp
  from C3_six_closes[of "\<lambda>_. False" "\<lambda>_. None" "''ws://localhost:8000/ws/landmarks''"]
  have "\<forall>later. Open \<notin> set later \<longrightarrow>
      timers (run (\<lambda>_. False) (\<lambda>_. None)
        (run (\<lambda>_. False) (\<lambda>_. None)
           (constructor ''ws://localhost:8000/ws/landmarks'' :: unit LandmarkWebSocket) six_closes)
        later) = [1000, 2000, 4000, 8000, 16000]"
    by blast
  with o show ?thesis by blast
qed

text \<open>The claim as the specification words it fails: after an initial \<^verbatim>\<open>connect()\<close> and five
  closes in a row, not one \<^verbatim>\<open>maxReconnectAttemptsReached\<close> has been emitted, and five timers
  have been set, the last of them still to fire.\<close>

theorem C3_counterexample:
  "count_list
     (emitted (run (\<lambda>_. False) (\<lambda>_. None)
        (constructor ''ws://localhost:8000/ws/landmarks'' :: unit LandmarkWebSocket)
        [Call_connect, Close, Timer, Close, Timer, Close, Timer, Close, Timer, Close]))
     (E_maxReconnectAttemptsReached True) = 0 \<and>
   count_list
     (emitted (run (\<lambda>_. False) (\<lambda>_. None)
        (constructor ''ws://localhost:8000/ws/landmarks'' :: unit LandmarkWebSocket)
        [Call_connect, Close, Timer, Close, Timer, Close, Timer, Close, Timer, Close]))
     (E_maxReconnectAttemptsReached True) \<noteq> 1"
  by (simp add: run_def constructor_def ws_defs Let_def)

text \<open>
  Claim C9. A message whose payload \<^verbatim>\<open>JSON.parse\<close> rejects only adds one line to the
  console: nothing is emitted, \<^verbatim>\<open>close()\<close> is not called, the socket, the attempt counter
  and the timers are as before. The next message that parses is emitted as usual, and
  whatever happens later happens as if the malformed message had never arrived.
\<close>

theorem C9_malformed_message:
  assumes bad: "JSON_parse m = None"
  shows "onmessage JSON_parse m s =
           s\<lparr> console := console s @ [error_Error_parsing_WebSocket_message] \<rparr> \<and>
         emitted (onmessage JSON_parse m s) = emitted s \<and>
         closed (onmessage JSON_parse m s) = closed s \<and>
         ws (onmessage JSON_parse m s) = ws s \<and>
         reconnectAttempts (onmessage JSON_parse m s) = reconnectAttempts s \<and>
         timers (onmessage JSON_parse m s) = timers s \<and>
         (\<forall>m' d. JSON_parse m' = Some d \<longrightarrow>
            emitted (onmessage JSON_parse m' (onmessage JSON_parse m s)) =
              emitted s @ [E_landmarks d]) \<and>
         (\<forall>later. observable (run T JSON_parse (onmessage JSON_parse m s) later) =
                  observable (run T JSON_parse s later))"
proof -
  have eq: "onmessage JSON_parse m s =
      s\<lparr> console := console s @ [error_Error_parsing_WebSocket_message] \<rparr>"
    by (simp add: onmessage_def console_out_def bad)
  have next_one: "\<forall>m' d. JSON_parse m' = Some d \<longrightarrow>
            emitted (onmessage JSON_parse m' (onmessage JSON_parse m s)) =
              emitted s @ [E_landmarks d]"
    by (simp add: eq) (simp add: onmessage_def emit_def)
  have u: "observable (onmessage JSON_parse m s) = observable s"
    by (simp add: eq observable_def)
  have later: "\<forall>later. observable (run T JSON_parse (onmessage JSON_parse m s) later) =
                  observable (run T JSON_parse s later)"
    using observable_run[OF u] by blast
  from eq next_one later show ?thesis by simp
qed

theorem C9_malformed_message_witness:
  "parse_braces ''{oops'' = None \<and> parse_braces ''{}'' = Some () \<and>
   emitted (run (\<lambda>_. False) parse_braces (constructor ''ws://localhost:8000/ws/landmarks'')
      [Call_connect, Open, Message ''{oops'', Message ''{}'']) =
     [E_connected True, E_landmarks ()] \<and>
   closed (run (\<lambda>_. False) parse_braces (constructor ''ws://localhost:8000/ws/landmarks'')
      [Call_connect, Open, Message ''{oops'']) = []"
proof -
  let ?s = "run (\<lambda>_. False) parse_braces (constructor ''ws://localhost:8000/ws/landmarks'')
              [Call_connect, Open]"
  have bad: "parse_braces ''{oops'' = None" and good: "parse_braces ''{}'' = Some ()"
    by (simp_all add: parse_braces_def)
  have s: "emitted ?s = [E_connected True] \<and> closed ?s = []"
    by (simp add: run_def constructor_def ws_defs)
  note c9 = C9_malformed_message[of parse_braces "''{oops''" ?s "\<lambda>_. False", OF bad]
  from c9 have c: "closed (onmessage parse_braces ''{oops'' ?s) = closed ?s"
    by blast
  from c9 have "\<forall>m' d. parse_braces m' = Some d \<longrightarrow>
      emitted (onmessage parse_braces m' (onmessage parse_braces ''{oops'' ?s)) =
        emitted ?s @ [E_landmarks d]"
    by blast
  with good
  have e: "emitted (onmessage parse_braces ''{}'' (onmessage parse_braces ''{oops'' ?s)) =
      emitted ?s @ [E_landmarks ()]"
    by blast
  have r1: "run (\<lambda>_. False) parse_braces (constructor ''ws://localhost:8000/ws/landmarks'')
      [Call_connect, Open, Message ''{oops'', Message ''{}''] =
      onmessage parse_braces ''{}'' (onmessage parse_braces ''{oops'' ?s)"
    by (simp add: run_def)
  have r2: "run (\<lambda>_. False) parse_braces (constructor ''ws://localhost:8000/ws/landmarks'')
      [Call_connect, Open, Message ''{oops''] = onmessage parse_braces ''{oops'' ?s"
    by (simp add: run_def)
  from bad good s c e show ?thesis
    unfolding r1 r2 by simp
qed

text \<open>
  Claim C10. \<^verbatim>\<open>disconnect()\<close> on a client that holds a socket sets the attempt counter to
  the maximum, calls \<^verbatim>\<open>close()\<close> on the socket and forgets it, emitting nothing itself.
  The close handler of that socket then runs as for any close: it emits
  \<^verbatim>\<open>connected(false)\<close>, finds the counter at the maximum, emits
  \<^verbatim>\<open>maxReconnectAttemptsReached(true)\<close> and sets no timer.
\<close>

theorem C10_explicit_disconnect:
  assumes "ws s = Some w"
  shows "reconnectAttempts (disconnect s) = maxReconnectAttempts s \<and>
         closed (disconnect s) = closed s @ [w] \<and>
         ws (disconnect s) = None \<and>
         emitted (disconnect s) = emitted s \<and>
         emitted (run T P s [Call_disconnect, Close]) =
           emitted s @ [E_connected False, E_maxReconnectAttemptsReached True] \<and>
         timers (run T P s [Call_disconnect, Close]) = timers s"
  using assms by (simp add: run_def ws_defs Let_def)

theorem C10_explicit_disconnect_witness:
  "ws (run (\<lambda>_. False) (\<lambda>_. None)
         (constructor ''ws://localhost:8000/ws/landmarks'' :: unit LandmarkWebSocket)
         [Call_connect, Open]) = Some 0 \<and>
   reconnectAttempts (run (\<lambda>_. False) (\<lambda>_. None)
         (constructor ''ws://localhost:8000/ws/landmarks'' :: unit LandmarkWebSocket)
         [Call_connect, Open]) = 0 \<and>
   emitted (run (\<lambda>_. False) (\<lambda>_. None)
         (constructor ''ws://localhost:8000/ws/landmarks'' :: unit LandmarkWebSocket)
         [Call_connect, Open, Call_disconnect, Close]) =
     [E_connected True, E_connected False, E_maxReconnectAttemptsReached True] \<and>
   timers (run (\<lambda>_. False) (\<lambda>_. None)
         (constructor ''ws://localhost:8000/ws/landmarks'' :: unit LandmarkWebSocket)
         [Call_connect, Open, Call_disconnect, Close]) = []"
proof -
  let ?s = "run (\<lambda>_. False) (\<lambda>_. None)
         (constructor ''ws://localhost:8000/ws/landmarks'' :: unit LandmarkWebSocket)
         [Call_connect, Open]"
  have s: "ws ?s = Some 0 \<and> reconnectAttempts ?s = 0 \<and> emitted ?s = [E_connected True] \<and>
           timers ?s = []"
    by (simp add: run_def constructor_def ws_defs)
  then have w: "ws ?s = Some 0" by simp
  from C10_explicit_disconnect[OF w, of "\<lambda>_. False" "\<lambda>_. None"] s
  show ?thesis by (simp add: run_def)
qed

section \<open>Properties of the overlay and of the application state\<close>

lemma effect_None: "AROverlay_effect None vsize st = st\<lparr> isVisible := False \<rparr>"
  by (simp add: AROverlay_effect_def)


lemma effect_visible: "isVisible (AROverlay_effect lms vsize st) = both_ears lms"
  by (simp add: AROverlay_effect_def both_ears_def Let_def split: option.split)

lemma effect_modelError: "modelError (AROverlay_effect lms vsize st) = modelError st"
  by (simp add: AROverlay_effect_def Let_def split: option.split)

lemma in_sync_mount: "in_sync mount"
  by (simp add: in_sync_def mount_def effect_visible App_init_def both_ears_def)

lemma receive_frame_error:
  assumes "truthy (error data)"
  shows "receive_frame data u = ((fst u)\<lparr> backendError := error data \<rparr>, snd u)"
  using assms by (simp add: receive_frame_def on_landmarks_def Let_def)

lemma receive_frame_visible:
  assumes "in_sync u" and "\<not> truthy (error data)"
  shows "isVisible (snd (receive_frame data u)) = both_ears (landmarks data)"
proof (cases "app_landmarks (fst u) = None \<and> landmarks data = None")
  case True
  with assms show ?thesis
    by (simp add: receive_frame_def on_landmarks_def Let_def in_sync_def both_ears_def)
next
  case False
  with assms(2) show ?thesis
    by (auto simp add: receive_frame_def on_landmarks_def Let_def effect_visible)
qed

lemma in_sync_receive_frame:
  assumes "in_sync u"
  shows "in_sync (receive_frame data u)"
proof (cases "truthy (error data)")
  case True
  with assms show ?thesis by (simp add: receive_frame_error in_sync_def)
next
  case False
  have "app_landmarks (fst (receive_frame data u)) = landmarks data"
    using False by (simp add: receive_frame_def on_landmarks_def Let_def)
  with receive_frame_visible[OF assms False] show ?thesis by (simp add: in_sync_def)
qed

lemma in_sync_video_ready: "in_sync (video_ready vsize u)"
  by (simp add: in_sync_def video_ready_def Let_def handleVideoReady_def effect_visible)

text \<open>
  Claim C1, as the code has it. For a frame without an error (none, or the empty string),
  the overlay is visible after the frame if and only if the frame's landmarks object is
  non-null and holds a non-null left and right ear; \<^verbatim>\<open>face_detected\<close> is not consulted: the
  overlay state after the frame is the same whatever its value. A frame with a non-empty
  error leaves the visibility as it was, and so does a new video size, although the effect
  runs again: between two frames the visibility does not change.
\<close>

theorem C1_visibility:
  assumes "in_sync u"
  shows "isVisible (snd (receive_frame data u)) =
           (if truthy (error data) then isVisible (snd u) else both_ears (landmarks data)) \<and>
         snd (receive_frame (data\<lparr> face_detected := b \<rparr>) u) = snd (receive_frame data u) \<and>
         isVisible (snd (video_ready vsize u)) = isVisible (snd u) \<and>
         in_sync (receive_frame data u)"
proof -
  have v: "isVisible (snd (receive_frame data u)) =
           (if truthy (error data) then isVisible (snd u) else both_ears (landmarks data))"
    using receive_frame_visible[OF assms, of data] by (simp add: receive_frame_error)
  have f: "snd (receive_frame (data\<lparr> face_detected := b \<rparr>) u) = snd (receive_frame data u)"
    by (cases "truthy (error data)") (simp_all add: receive_frame_def on_landmarks_def Let_def)
  have r: "isVisible (snd (video_ready vsize u)) = isVisible (snd u)"
    using assms by (simp add: video_ready_def Let_def handleVideoReady_def effect_visible in_sync_def)
  from v f r in_sync_receive_frame[OF assms] show ?thesis by simp
qed

theorem C1_visibility_witness:
  "in_sync mount \<and>
   isVisible (snd (receive_frame scenario_frame mount)) \<and>
   \<not> isVisible (snd (receive_frame (scenario_frame\<lparr> landmarks := None \<rparr>) mount))"
proof -
  have v: "both_ears (landmarks scenario_frame) \<and> \<not> truthy (error scenario_frame)"
    by (simp add: scenario_frame_def scenario_landmarks_def both_ears_def)
  from C1_visibility[OF in_sync_mount, of scenario_frame]
       C1_visibility[OF in_sync_mount, of "scenario_frame\<lparr> landmarks := None \<rparr>"] v
  show ?thesis
    by (simp add: in_sync_mount) (simp add: scenario_frame_def both_ears_def)
qed

text \<open>The claim as worded fails twice. A frame with both ears and \<^verbatim>\<open>face_detected: false\<close>
  makes the overlay visible; and after a frame with an error, null landmarks and no
  \<^verbatim>\<open>face_detected\<close>, the overlay made visible by the frame before stays visible.\<close>

theorem C1_counterexample:
  "face_detected frame_face_not_detected = Some False \<and>
   isVisible (snd (receive_frame frame_face_not_detected mount)) \<and>
   landmarks frame_backend_error = None \<and>
   isVisible (snd (receive_frame frame_backend_error (receive_frame scenario_frame mount)))"
  by (simp add: frame_face_not_detected_def frame_backend_error_def scenario_frame_def
        scenario_landmarks_def receive_frame_def on_landmarks_def Let_def mount_def App_init_def
        effect_visible both_ears_def)

subsection \<open>Computed values\<close>

lemma pow2_powr: "pow2 k = 2 powr (of_int k)"
proof (cases "0 \<le> k")
  case True
  then have "(2::real) ^ nat k = 2 powr (of_int k)"
    by (simp add: powr_realpow[symmetric])
  with True show ?thesis by (simp add: pow2_def)
next
  case False
  then have "(2::real) ^ nat (- k) = 2 powr (- of_int k)"
    by (simp add: powr_realpow[symmetric])
  with False show ?thesis by (simp add: pow2_def powr_minus_divide)
qed

lemma pow2_mono: "a \<le> b \<Longrightarrow> pow2 a \<le> pow2 b"
  by (simp add: pow2_powr)

lemma binade_from_eq:
  assumes "e0 \<le> e" and "e - e0 \<le> int k" and "pow2 e \<le> m" and "m < pow2 (e + 1)"
  shows "binade_from k e0 m = e"
  using assms
proof (induction k arbitrary: e0)
  case 0
  then show ?case by simp
next
  case (Suc k)
  show ?case
  proof (cases "e0 = e")
    case True
    with Suc.prems show ?thesis by simp
  next
    case False
    with Suc.prems have lt: "e0 + 1 \<le> e" by simp
    have "pow2 (e0 + 1) \<le> m"
      using pow2_mono[OF lt] Suc.prems(3) by simp
    moreover have "binade_from k (e0 + 1) m = e"
      using Suc.IH[of "e0 + 1"] lt Suc.prems by simp
    ultimately show ?thesis by simp
  qed
qed

lemma binade_eq:
  assumes "pow2 e \<le> m" and "m < pow2 (e + 1)" and "- 1022 \<le> e" and "e \<le> 1023"
  shows "binade m = e"
  unfolding binade_def using assms by (intro binade_from_eq) simp_all

lemma binade_zero: "binade 0 = - 1022"
  by (simp add: binade_def numeral_eq_Suc pow2_def)

lemma binary64_zero: "binary64 sg 0 = Finite sg 0"
  by (simp add: binary64_def round_mag_def binade_zero nearest_even_def Let_def)

lemma binary64_at:
  assumes "pow2 e \<le> m" and "m < pow2 (e + 1)" and "- 1022 \<le> e" and "e \<le> 1023"
    and "r = of_int (nearest_even (m / pow2 (e - 52))) * pow2 (e - 52)" and "r < 2 ^ 1024"
  shows "binary64 sg m = Finite sg r"
  using assms(5,6) by (simp add: binary64_def round_mag_def binade_eq[OF assms(1-4)] Let_def)

lemma lit_0: "lit 0 = Finite False 0"
  by (simp add: lit_def binary64_zero)

lemma lit_1: "lit 1 = Finite False 1"
  unfolding lit_def by (simp, rule binary64_at[of 0]) (simp_all add: pow2_def nearest_even_def Let_def)

lemma lit_2: "lit 2 = Finite False 2"
  unfolding lit_def by (simp, rule binary64_at[of 1]) (simp_all add: pow2_def nearest_even_def Let_def)

lemma lit_9: "lit 9 = Finite False 9"
  unfolding lit_def by (simp, rule binary64_at[of 3]) (simp_all add: pow2_def nearest_even_def Let_def)

lemma lit_16: "lit 16 = Finite False 16"
  unfolding lit_def by (simp, rule binary64_at[of 4]) (simp_all add: pow2_def nearest_even_def Let_def)

lemma lit_720: "lit 720 = Finite False 720"
  unfolding lit_def by (simp, rule binary64_at[of 9]) (simp_all add: pow2_def nearest_even_def Let_def)

lemma lit_01: "lit 0.1 = Finite False (3602879701896397 / 36028797018963968)"
  unfolding lit_def by (simp, rule binary64_at[of "- 4"]) (simp_all add: pow2_def nearest_even_def Let_def)

lemma lit_02: "lit 0.2 = Finite False (3602879701896397 / 18014398509481984)"
  unfolding lit_def by (simp, rule binary64_at[of "- 3"]) (simp_all add: pow2_def nearest_even_def Let_def)

lemma lit_03: "lit 0.3 = Finite False (5404319552844595 / 18014398509481984)"
  unfolding lit_def by (simp, rule binary64_at[of "- 2"]) (simp_all add: pow2_def nearest_even_def Let_def)

lemma lit_04: "lit 0.4 = Finite False (3602879701896397 / 9007199254740992)"
  unfolding lit_def by (simp, rule binary64_at[of "- 2"]) (simp_all add: pow2_def nearest_even_def Let_def)

lemma lit_07: "lit 0.7 = Finite False (3152519739159347 / 4503599627370496)"
  unfolding lit_def by (simp, rule binary64_at[of "- 1"]) (simp_all add: pow2_def nearest_even_def Let_def)

text \<open>\<^verbatim>\<open>16 / 9\<close> is 1.7777777777777777.\<close>

lemma aspect_default: "num_div (lit 16) (lit 9) = Finite False (2001599834386887 / 1125899906842624)"
  unfolding lit_16 lit_9
  by (simp, rule binary64_at[of 0]) (simp_all add: pow2_def nearest_even_def Let_def)

lemma aspect_square: "num_div (lit 720) (lit 720) = Finite False 1"
  unfolding lit_720
  by (simp, rule binary64_at[of 0]) (simp_all add: pow2_def nearest_even_def Let_def)

text \<open>\<^verbatim>\<open>-(0.3 * 2 - 1)\<close> is 0.4, \<^verbatim>\<open>-(0.4 * 2 - 1)\<close> is 0.19999999999999996 and \<^verbatim>\<open>0.1 * 2\<close> is 0.2.\<close>

lemma x_03: "num_neg (num_sub (num_mul (lit 0.3) (lit 2)) (lit 1)) = lit 0.4"
proof -
  have m: "num_mul (lit 0.3) (lit 2) = Finite False (5404319552844595 / 9007199254740992)"
    unfolding lit_03 lit_2
    by (simp, rule binary64_at[of "- 1"]) (simp_all add: pow2_def nearest_even_def Let_def)
  have s: "num_sub (Finite False (5404319552844595 / 9007199254740992)) (lit 1) =
           Finite True (3602879701896397 / 9007199254740992)"
    unfolding lit_1 num_sub_def
    by (simp add: signed_def, rule binary64_at[of "- 2"])
       (simp_all add: pow2_def nearest_even_def Let_def)
  show ?thesis unfolding m s lit_04 by simp
qed

lemma y_04:
  "num_neg (num_sub (num_mul (lit 0.4) (lit 2)) (lit 1)) =
     Finite False (900719925474099 / 4503599627370496)"
proof -
  have m: "num_mul (lit 0.4) (lit 2) = Finite False (3602879701896397 / 4503599627370496)"
    unfolding lit_04 lit_2
    by (simp, rule binary64_at[of "- 1"]) (simp_all add: pow2_def nearest_even_def Let_def)
  have s: "num_sub (Finite False (3602879701896397 / 4503599627370496)) (lit 1) =
           Finite True (900719925474099 / 4503599627370496)"
    unfolding lit_1 num_sub_def
    by (simp add: signed_def, rule binary64_at[of "- 3"])
       (simp_all add: pow2_def nearest_even_def Let_def)
  show ?thesis unfolding m s by simp
qed

lemma z_01: "num_mul (lit 0.1) (lit 2) = lit 0.2"
  unfolding lit_01 lit_2 lit_02
  by (simp, rule binary64_at[of "- 3"]) (simp_all add: pow2_def nearest_even_def Let_def)

lemma times_one: "num_mul (lit 0.4) (Finite False 1) = lit 0.4"
  unfolding lit_04
  by (simp, rule binary64_at[of "- 2"]) (simp_all add: pow2_def nearest_even_def Let_def)

text \<open>\<^verbatim>\<open>0.4 * (16 / 9)\<close> is 0.7111111111111111.\<close>

lemma times_default:
  "num_mul (lit 0.4) (Finite False (2001599834386887 / 1125899906842624)) =
     Finite False (6405119470038039 / 9007199254740992)"
  unfolding lit_04
  by (simp, rule binary64_at[of "- 1"]) (simp_all add: pow2_def nearest_even_def Let_def)

lemma effect64_ears:
  assumes "left_ear64 lm = Some p" and "right_ear64 lm = Some q"
  shows "AROverlay_effect64 (Some lm) vsize st =
     (let aspect = (case vsize of
                      Some v \<Rightarrow> num_div (width64 v) (height64 v)
                    | None \<Rightarrow> num_div (lit 16) (lit 9))
      in st\<lparr> isVisible64 := True,
             leftEarPos64 :=
               (num_mul (num_neg (num_sub (num_mul (x64 p) (lit 2)) (lit 1))) aspect,
                num_neg (num_sub (num_mul (y64 p) (lit 2)) (lit 1)),
                num_mul (z64 p) (lit 2)),
             rightEarPos64 :=
               (num_mul (num_neg (num_sub (num_mul (x64 q) (lit 2)) (lit 1))) aspect,
                num_neg (num_sub (num_mul (y64 q) (lit 2)) (lit 1)),
                num_mul (z64 q) (lit 2)),
             faceRotation64 := (case face_rotation64 lm of
                                  Some r \<Rightarrow> (pitch64 r, yaw64 r, roll64 r)
                                | None \<Rightarrow> faceRotation64 st) \<rparr>)"
  using assms by (simp add: AROverlay_effect64_def Let_def split: option.split)

lemma lit_0199: "lit 0.19999999999999996 = Finite False (900719925474099 / 4503599627370496)"
  unfolding lit_def by (simp, rule binary64_at[of "- 3"]) (simp_all add: pow2_def nearest_even_def Let_def)

text \<open>
  Claim C4, as the code has it. With both ears present the effect makes the overlay
  visible and stores, for each ear \<open>(x, y, z)\<close>, the position
  \<open>(-(x*2-1)*a, -(y*2-1), z*2)\<close>, every operation being the binary64 one, where \<open>a\<close> is the
  video's width divided by its height, or \<^verbatim>\<open>16 / 9\<close> (1.7777777777777777) as long as no video
  size is known. For the left ear \<open>(0.3, 0.4, 0.1)\<close> and \<open>a = 1\<close> the position is
  \<open>(0.4, 0.19999999999999996, 0.2)\<close>: its second coordinate is the binary64 number just
  below 0.2, at a distance of \<open>2^-54\<close>.
\<close>

theorem C4_transform:
  assumes "left_ear64 lm = Some p" and "right_ear64 lm = Some q"
    and "a = (case vsize of
                Some v \<Rightarrow> num_div (width64 v) (height64 v)
              | None \<Rightarrow> num_div (lit 16) (lit 9))"
  shows "leftEarPos64 (AROverlay_effect64 (Some lm) vsize st) =
           (num_mul (num_neg (num_sub (num_mul (x64 p) (lit 2)) (lit 1))) a,
            num_neg (num_sub (num_mul (y64 p) (lit 2)) (lit 1)),
            num_mul (z64 p) (lit 2)) \<and>
         rightEarPos64 (AROverlay_effect64 (Some lm) vsize st) =
           (num_mul (num_neg (num_sub (num_mul (x64 q) (lit 2)) (lit 1))) a,
            num_neg (num_sub (num_mul (y64 q) (lit 2)) (lit 1)),
            num_mul (z64 q) (lit 2)) \<and>
         isVisible64 (AROverlay_effect64 (Some lm) vsize st) \<and>
         (vsize = None \<longrightarrow> a = Finite False (2001599834386887 / 1125899906842624)) \<and>
         (x64 p = lit 0.3 \<and> y64 p = lit 0.4 \<and> z64 p = lit 0.1 \<and> a = lit 1 \<longrightarrow>
            leftEarPos64 (AROverlay_effect64 (Some lm) vsize st) =
              (lit 0.4, lit 0.19999999999999996, lit 0.2)) \<and>
         lit 0.19999999999999996 = Finite False (900719925474099 / 4503599627370496) \<and>
         lit 0.2 = Finite False (900719925474099 / 4503599627370496 + 1 / 2 ^ 54)"
proof -
  let ?s = "AROverlay_effect64 (Some lm) vsize st"
  have l: "leftEarPos64 ?s =
           (num_mul (num_neg (num_sub (num_mul (x64 p) (lit 2)) (lit 1))) a,
            num_neg (num_sub (num_mul (y64 p) (lit 2)) (lit 1)),
            num_mul (z64 p) (lit 2))"
    by (simp add: effect64_ears[OF assms(1,2)] assms(3) Let_def)
  have r: "rightEarPos64 ?s =
           (num_mul (num_neg (num_sub (num_mul (x64 q) (lit 2)) (lit 1))) a,
            num_neg (num_sub (num_mul (y64 q) (lit 2)) (lit 1)),
            num_mul (z64 q) (lit 2))"
    by (simp add: effect64_ears[OF assms(1,2)] assms(3) Let_def)
  have v: "isVisible64 ?s"
    by (simp add: effect64_ears[OF assms(1,2)] Let_def)
  have d: "vsize = None \<longrightarrow> a = Finite False (2001599834386887 / 1125899906842624)"
    using assms(3) aspect_default by simp
  have s: "x64 p = lit 0.3 \<and> y64 p = lit 0.4 \<and> z64 p = lit 0.1 \<and> a = lit 1 \<longrightarrow>
            leftEarPos64 ?s = (lit 0.4, lit 0.19999999999999996, lit 0.2)"
  proof
    assume h: "x64 p = lit 0.3 \<and> y64 p = lit 0.4 \<and> z64 p = lit 0.1 \<and> a = lit 1"
    have "num_mul (num_neg (num_sub (num_mul (x64 p) (lit 2)) (lit 1))) a = lit 0.4"
      using h x_03 times_one lit_1 by simp
    moreover have "num_neg (num_sub (num_mul (y64 p) (lit 2)) (lit 1)) = lit 0.19999999999999996"
      using h y_04 lit_0199 by simp
    moreover have "num_mul (z64 p) (lit 2) = lit 0.2"
      using h z_01 by simp
    ultimately show "leftEarPos64 ?s = (lit 0.4, lit 0.19999999999999996, lit 0.2)"
      using l by simp
  qed
  have e: "lit 0.2 = Finite False (900719925474099 / 4503599627370496 + 1 / 2 ^ 54)"
    unfolding lit_02 by simp
  from l r v d s lit_0199 e show ?thesis by blast
qed

theorem C4_transform_witness:
  "leftEarPos64 (AROverlay_effect64 (Some scenario_landmarks64) (Some square_video64)
      AROverlay_init64) = (lit 0.4, lit 0.19999999999999996, lit 0.2) \<and>
   isVisible64 (AROverlay_effect64 (Some scenario_landmarks64) (Some square_video64)
      AROverlay_init64) \<and>
   leftEarPos64 (AROverlay_effect64 (Some scenario_landmarks64) None AROverlay_init64) =
     (Finite False (6405119470038039 / 9007199254740992), lit 0.19999999999999996, lit 0.2)"
proof -
  let ?p = "\<lparr> x64 = lit 0.3, y64 = lit 0.4, z64 = lit 0.1 \<rparr>"
  let ?q = "\<lparr> x64 = lit 0.7, y64 = lit 0.4, z64 = lit 0.1 \<rparr>"
  have e: "left_ear64 scenario_landmarks64 = Some ?p" "right_ear64 scenario_landmarks64 = Some ?q"
    by (simp_all add: scenario_landmarks64_def)
  have a1: "lit 1 = (case Some square_video64 of
                       Some v \<Rightarrow> num_div (width64 v) (height64 v)
                     | None \<Rightarrow> num_div (lit 16) (lit 9))"
    by (simp add: square_video64_def aspect_square lit_1)
  have a2: "Finite False (2001599834386887 / 1125899906842624) =
            (case None :: VideoSize64 option of
               Some v \<Rightarrow> num_div (width64 v) (height64 v)
             | None \<Rightarrow> num_div (lit 16) (lit 9))"
    by (simp add: aspect_default)
  note sq = C4_transform[OF e a1, of AROverlay_init64]
  note cold = C4_transform[OF e a2, of AROverlay_init64]
  have p: "x64 ?p = lit 0.3 \<and> y64 ?p = lit 0.4 \<and> z64 ?p = lit 0.1 \<and> lit 1 = lit 1"
    by simp
  from sq p have w1: "leftEarPos64 (AROverlay_effect64 (Some scenario_landmarks64)
      (Some square_video64) AROverlay_init64) = (lit 0.4, lit 0.19999999999999996, lit 0.2)"
    by blast
  from sq have w2: "isVisible64 (AROverlay_effect64 (Some scenario_landmarks64)
      (Some square_video64) AROverlay_init64)"
    by blast
  from cold have "leftEarPos64 (AROverlay_effect64 (Some scenario_landmarks64) None
      AROverlay_init64) =
     (num_mul (num_neg (num_sub (num_mul (x64 ?p) (lit 2)) (lit 1)))
        (Finite False (2001599834386887 / 1125899906842624)),
      num_neg (num_sub (num_mul (y64 ?p) (lit 2)) (lit 1)),
      num_mul (z64 ?p) (lit 2))"
    by blast
  then have w3: "leftEarPos64 (AROverlay_effect64 (Some scenario_landmarks64) None
      AROverlay_init64) =
     (Finite False (6405119470038039 / 9007199254740992), lit 0.19999999999999996, lit 0.2)"
    using x_03 times_default y_04 lit_0199 z_01 by simp
  from w1 w2 w3 show ?thesis by blast
qed

text \<open>The claim as worded fails at its own input: with the left ear \<open>(0.3, 0.4, 0.1)\<close> and
  a square video the second coordinate of the left position is 0.19999999999999996, which
  is not the number 0.2, so the position is not \<open>(0.4, 0.2, 0.2)\<close>.\<close>

theorem C4_counterexample:
  "leftEarPos64 (AROverlay_effect64 (Some scenario_landmarks64) (Some square_video64)
      AROverlay_init64) = (lit 0.4, lit 0.19999999999999996, lit 0.2) \<and>
   lit 0.19999999999999996 \<noteq> lit 0.2 \<and>
   leftEarPos64 (AROverlay_effect64 (Some scenario_landmarks64) (Some square_video64)
      AROverlay_init64) \<noteq> (lit 0.4, lit 0.2, lit 0.2)"
proof -
  let ?p = "\<lparr> x64 = lit 0.3, y64 = lit 0.4, z64 = lit 0.1 \<rparr>"
  let ?q = "\<lparr> x64 = lit 0.7, y64 = lit 0.4, z64 = lit 0.1 \<rparr>"
  have e: "left_ear64 scenario_landmarks64 = Some ?p" "right_ear64 scenario_landmarks64 = Some ?q"
    by (simp_all add: scenario_landmarks64_def)
  have "leftEarPos64 (AROverlay_effect64 (Some scenario_landmarks64) (Some square_video64)
      AROverlay_init64) =
     (num_mul (num_neg (num_sub (num_mul (lit 0.3) (lit 2)) (lit 1))) (Finite False 1),
      num_neg (num_sub (num_mul (lit 0.4) (lit 2)) (lit 1)),
      num_mul (lit 0.1) (lit 2))"
    by (simp add: effect64_ears[OF e] square_video64_def aspect_square Let_def)
  then have pos: "leftEarPos64 (AROverlay_effect64 (Some scenario_landmarks64)
      (Some square_video64) AROverlay_init64) = (lit 0.4, lit 0.19999999999999996, lit 0.2)"
    using x_03 times_one y_04 lit_0199 z_01 by simp
  have ne: "lit 0.19999999999999996 \<noteq> lit 0.2"
    unfolding lit_0199 lit_02 by simp
  from pos ne show ?thesis by simp
qed

text \<open>The rotation is held on binary64 numbers as it is in exact arithmetic, whatever
  the video size, a height of 0 included: after landmarks with a rotation and then
  landmarks without one, both with the two ears, the rotation is still the first, the
  positions are computed from the second ears and the overlay is visible.\<close>

lemma effect64_rotation_held:
  assumes "left_ear64 l1 = Some p1" and "right_ear64 l1 = Some q1"
    and "face_rotation64 l1 = Some r1"
    and "left_ear64 l2 = Some p2" and "right_ear64 l2 = Some q2"
    and "face_rotation64 l2 = None"
    and "s2 = AROverlay_effect64 (Some l2) v2 (AROverlay_effect64 (Some l1) v1 st)"
    and "a2 = (case v2 of
                 Some v \<Rightarrow> num_div (width64 v) (height64 v)
               | None \<Rightarrow> num_div (lit 16) (lit 9))"
  shows "faceRotation64 s2 = (pitch64 r1, yaw64 r1, roll64 r1) \<and>
         isVisible64 s2 \<and>
         leftEarPos64 s2 =
           (num_mul (num_neg (num_sub (num_mul (x64 p2) (lit 2)) (lit 1))) a2,
            num_neg (num_sub (num_mul (y64 p2) (lit 2)) (lit 1)),
            num_mul (z64 p2) (lit 2)) \<and>
         rightEarPos64 s2 =
           (num_mul (num_neg (num_sub (num_mul (x64 q2) (lit 2)) (lit 1))) a2,
            num_neg (num_sub (num_mul (y64 q2) (lit 2)) (lit 1)),
            num_mul (z64 q2) (lit 2))"
  using assms(3,6,7,8)
  by (simp add: effect64_ears[OF assms(1,2)] effect64_ears[OF assms(4,5)] Let_def)

subsection \<open>Error frames, rotation and fallback\<close>

text \<open>
  Claim C5, as the code has it. A frame whose error is a non-empty string changes nothing
  but \<^verbatim>\<open>backendError\<close>, which takes the error: the stored landmarks, fps and face-detected
  flag stay, the overlay's effect does not run, and the overlay draws what it drew before.
  A frame whose error is the empty string is handled as the same frame without an error.
\<close>

theorem C5_error_frame:
  assumes "truthy (error data)"
  shows "on_landmarks data a = a\<lparr> backendError := error data \<rparr> \<and>
         app_landmarks (on_landmarks data a) = app_landmarks a \<and>
         app_fps (on_landmarks data a) = app_fps a \<and>
         faceDetected (on_landmarks data a) = faceDetected a \<and>
         snd (receive_frame data u) = snd u \<and>
         AROverlay_render (snd (receive_frame data u)) = AROverlay_render (snd u) \<and>
         on_landmarks (frame\<lparr> error := Some [] \<rparr>) a = on_landmarks (frame\<lparr> error := None \<rparr>) a \<and>
         receive_frame (frame\<lparr> error := Some [] \<rparr>) u = receive_frame (frame\<lparr> error := None \<rparr>) u"
proof -
  have e: "on_landmarks (frame\<lparr> error := Some [] \<rparr>) a = on_landmarks (frame\<lparr> error := None \<rparr>) a"
    for a
    by (simp add: on_landmarks_def)
  have r: "receive_frame (frame\<lparr> error := Some [] \<rparr>) u = receive_frame (frame\<lparr> error := None \<rparr>) u"
    by (simp add: receive_frame_def e)
  from assms e r show ?thesis by (simp add: on_landmarks_def receive_frame_error)
qed

theorem C5_error_frame_witness:
  "truthy (error frame_backend_error) \<and>
   app_landmarks (fst (receive_frame frame_backend_error (receive_frame scenario_frame mount))) =
     Some scenario_landmarks \<and>
   backendError (fst (receive_frame frame_backend_error (receive_frame scenario_frame mount))) =
     Some ''camera unavailable'' \<and>
   snd (receive_frame frame_backend_error (receive_frame scenario_frame mount)) =
     snd (receive_frame scenario_frame mount)"
proof -
  have t: "truthy (error frame_backend_error)"
    by (simp add: frame_backend_error_def)
  have e: "error frame_backend_error = Some ''camera unavailable''"
    by (simp add: frame_backend_error_def)
  have l: "app_landmarks (fst (receive_frame scenario_frame mount)) = Some scenario_landmarks"
    by (simp add: receive_frame_def on_landmarks_def Let_def scenario_frame_def)
  have f: "fst (receive_frame frame_backend_error (receive_frame scenario_frame mount)) =
           on_landmarks frame_backend_error (fst (receive_frame scenario_frame mount))"
    by (simp add: receive_frame_def Let_def)
  from C5_error_frame[OF t, of "fst (receive_frame scenario_frame mount)"
         "receive_frame scenario_frame mount"] t e l
  show ?thesis by (simp add: f)
qed

text \<open>The claim as worded fails for a frame whose error field is set to the empty string:
  the handler takes it for a frame without error and stores its landmarks and fps.\<close>

theorem C5_counterexample:
  "error frame_empty_error = Some [] \<and>
   app_landmarks App_init = None \<and>
   app_landmarks (on_landmarks frame_empty_error App_init) = Some scenario_landmarks \<and>
   app_fps App_init = 0 \<and>
   app_fps (on_landmarks frame_empty_error App_init) = 30"
  by (simp add: frame_empty_error_def scenario_frame_def on_landmarks_def App_init_def)



text \<open>
  Claim C7. While the overlay is visible and holds the face rotation \<open>(fp, fy, fr)\<close>
  (pitch, yaw, roll), the left earring is drawn with the rotation \<open>(0.5*fp, 0.5*fy, fr)\<close> and
  the right one with \<open>(0.5*fp, pi + 0.5*fy, -fr)\<close>, in the overlay of
  \<^verbatim>\<open>components/AROverlay.jsx\<close> and in its model-loading variant alike.
\<close>

theorem C7_rotations:
  assumes "isVisible st" and "faceRotation st = (fp, fy, fr)"
    and "isVisible mst" and "faceRotation mst = (fp, fy, fr)"
    and "path = (case sel of None \<Rightarrow> None | Some j \<Rightarrow> modelPath j)"
  shows "AROverlay_render st =
           [ SimpleEarring (leftEarPos st) (0.5 * fp, 0.5 * fy, fr) 1.5,
             SimpleEarring (rightEarPos st) (0.5 * fp, pi + 0.5 * fy, - fr) 1.5 ] \<and>
         AROverlay_model_render sel mst =
           [ Earring path (leftEarPos mst) (0.5 * fp, 0.5 * fy, fr)
               (jewelryScale sel) (jewelryColor sel) (\<not> truthy path \<or> modelError mst),
             Earring path (rightEarPos mst) (0.5 * fp, pi + 0.5 * fy, - fr)
               (jewelryScale sel) (jewelryColor sel) (\<not> truthy path \<or> modelError mst) ]"
  using assms by (simp add: AROverlay_render_def AROverlay_model_render_def Let_def)

theorem C7_rotations_witness:
  "isVisible (AROverlay_effect (Some turned_landmarks) (Some square_video) AROverlay_init) \<and>
   faceRotation (AROverlay_effect (Some turned_landmarks) (Some square_video) AROverlay_init) =
     (0.2, 0.4, 0.1) \<and>
   AROverlay_render (AROverlay_effect (Some turned_landmarks) (Some square_video) AROverlay_init) =
     [ SimpleEarring (0.4, 0.2, 0.2) (0.1, 0.2, 0.1) 1.5,
       SimpleEarring (- 0.4, 0.2, 0.2) (0.1, pi + 0.2, - 0.1) 1.5 ] \<and>
   AROverlay_model_render (Some gold_hoops)
       (AROverlay_effect (Some turned_landmarks) (Some square_video) AROverlay_model_init) =
     [ Earring (Some ''/models/gold-hoop-earring.glb'') (0.4, 0.2, 0.2) (0.1, 0.2, 0.1)
         1.5 ''#FFD700'' False,
       Earring (Some ''/models/gold-hoop-earring.glb'') (- 0.4, 0.2, 0.2) (0.1, pi + 0.2, - 0.1)
         1.5 ''#FFD700'' False ]"
proof -
  let ?s = "AROverlay_effect (Some turned_landmarks) (Some square_video) AROverlay_init"
  let ?m = "AROverlay_effect (Some turned_landmarks) (Some square_video) AROverlay_model_init"
  have s: "?s = \<lparr> leftEarPos = (0.4, 0.2, 0.2), rightEarPos = (- 0.4, 0.2, 0.2),
      faceRotation = (0.2, 0.4, 0.1), isVisible = True \<rparr>"
    by (simp add: AROverlay_effect_def turned_landmarks_def scenario_landmarks_def
          square_video_def AROverlay_init_def Let_def)
  have m: "?m = \<lparr> leftEarPos = (0.4, 0.2, 0.2), rightEarPos = (- 0.4, 0.2, 0.2),
      faceRotation = (0.2, 0.4, 0.1), isVisible = True, modelError = False \<rparr>"
    by (simp add: AROverlay_effect_def turned_landmarks_def scenario_landmarks_def
          square_video_def AROverlay_model_init_def Let_def)
  have v: "isVisible ?s" and f: "faceRotation ?s = (0.2, 0.4, 0.1)"
    and vm: "isVisible ?m" and fm: "faceRotation ?m = (0.2, 0.4, 0.1)"
    by (simp_all add: s m)
  have p: "modelPath gold_hoops = (case Some gold_hoops of None \<Rightarrow> None | Some j \<Rightarrow> modelPath j)"
    by simp
  from C7_rotations[OF v f vm fm p] v f
  show ?thesis
    by (simp add: s m jewelryScale_def jewelryColor_def gold_hoops_def)
qed

lemma overlay_run_Nil: "overlay_run st [] = st"
  by (simp add: overlay_run_def)

lemma overlay_run_Cons: "overlay_run st (a # steps) = overlay_run (do_overlay_step st a) steps"
  by (simp add: overlay_run_def)

lemma do_overlay_step_modelError:
  assumes "modelError st"
  shows "modelError (do_overlay_step st a)"
  using assms by (cases a) (simp_all add: effect_modelError Canvas_onError_def)

lemma overlay_run_modelError:
  assumes "modelError st"
  shows "modelError (overlay_run st steps)"
  using assms
  by (induction steps arbitrary: st)
     (simp_all add: overlay_run_Nil overlay_run_Cons do_overlay_step_modelError)

lemma model_render_fallback:
  assumes "\<not> truthy (case sel of None \<Rightarrow> None | Some j \<Rightarrow> modelPath j) \<or> modelError st"
  shows "AROverlay_model_render sel st = fallback_render sel st"
  using assms
  by (cases "faceRotation st"; cases "isVisible st"; cases sel)
     (auto simp add: AROverlay_model_render_def fallback_render_def Let_def Earring_def
        split: option.split)

text \<open>
  Claim C8, as the code has it. When the selected descriptor has no model path (null or
  empty) or \<^verbatim>\<open>modelError\<close> is set, both earrings are the procedural fallback: a torus and a
  small sphere, the torus in the descriptor's colour (\<^verbatim>\<open>#FFD700\<close> when that is empty),
  the sphere always in \<^verbatim>\<open>#FF6B9D\<close>, all scaled by the descriptor's scale (1.5 when that is
  0). \<^verbatim>\<open>onError\<close> of the canvas sets \<^verbatim>\<open>modelError\<close>, nothing ever clears it, and from then
  on every render, of whichever descriptor, is the fallback.
\<close>

theorem C8_fallback:
  "((\<not> truthy (modelPath j) \<or> modelError st) \<longrightarrow>
      AROverlay_model_render (Some j) st = fallback_render (Some j) st) \<and>
   jewelryScale (Some j) = (if scale j = 0 then 1.5 else scale j) \<and>
   jewelryColor (Some j) = (if color j = [] then ''#FFD700'' else color j) \<and>
   ProceduralEarring pos rot sc col =
     group_node pos rot
       [ mesh (0, 0, 0) (torusGeometry (0.015 * sc) (0.003 * sc) 16 32) (meshStandardMaterial col),
         mesh (0, - 0.02 * sc, 0) (sphereGeometry (0.005 * sc) 16 16)
           (meshStandardMaterial ''#FF6B9D'') ] \<and>
   modelError (Canvas_onError st) \<and>
   (\<forall>steps sel.
      modelError (overlay_run (Canvas_onError st) steps) \<and>
      AROverlay_model_render sel (overlay_run (Canvas_onError st) steps) =
        fallback_render sel (overlay_run (Canvas_onError st) steps))"
proof -
  have a: "(\<not> truthy (modelPath j) \<or> modelError st) \<longrightarrow>
      AROverlay_model_render (Some j) st = fallback_render (Some j) st"
    using model_render_fallback[of "Some j" st] by simp
  have b: "jewelryScale (Some j) = (if scale j = 0 then 1.5 else scale j) \<and>
           jewelryColor (Some j) = (if color j = [] then ''#FFD700'' else color j)"
    by (simp add: jewelryScale_def jewelryColor_def)
  have c: "ProceduralEarring pos rot sc col =
     group_node pos rot
       [ mesh (0, 0, 0) (torusGeometry (0.015 * sc) (0.003 * sc) 16 32) (meshStandardMaterial col),
         mesh (0, - 0.02 * sc, 0) (sphereGeometry (0.005 * sc) 16 16)
           (meshStandardMaterial ''#FF6B9D'') ]"
    by (simp add: ProceduralEarring_def)
  have d: "modelError (Canvas_onError st)"
    by (simp add: Canvas_onError_def)
  have e: "\<forall>steps sel.
      modelError (overlay_run (Canvas_onError st) steps) \<and>
      AROverlay_model_render sel (overlay_run (Canvas_onError st) steps) =
        fallback_render sel (overlay_run (Canvas_onError st) steps)"
  proof (intro allI)
    fix steps sel
    have m: "modelError (overlay_run (Canvas_onError st) steps)"
      by (rule overlay_run_modelError[OF d])
    with model_render_fallback[of sel "overlay_run (Canvas_onError st) steps"]
    show "modelError (overlay_run (Canvas_onError st) steps) \<and>
      AROverlay_model_render sel (overlay_run (Canvas_onError st) steps) =
        fallback_render sel (overlay_run (Canvas_onError st) steps)"
      by simp
  qed
  from a b c d e show ?thesis by blast
qed

theorem C8_fallback_witness:
  "modelError (Canvas_onError tracking) \<and>
   AROverlay_model_render (Some gold_hoops) (Canvas_onError tracking) =
     [ ProceduralEarring (0.4, 0.2, 0.2) (0, 0, 0) 1.5 ''#FFD700'',
       ProceduralEarring (- 0.4, 0.2, 0.2) (0, pi, 0) 1.5 ''#FFD700'' ] \<and>
   AROverlay_model_render (Some gold_hoops)
     (overlay_run (Canvas_onError tracking) [Props (Some moved_landmarks) (Some square_video)]) =
     [ ProceduralEarring (0.5, 0, 0) (0, 0, 0) 1.5 ''#FFD700'',
       ProceduralEarring (- 0.5, 0, 0) (0, pi, 0) 1.5 ''#FFD700'' ]"
proof -
  let ?e = "Canvas_onError tracking"
  have t: "tracking = \<lparr> leftEarPos = (0.4, 0.2, 0.2), rightEarPos = (- 0.4, 0.2, 0.2),
      faceRotation = (0, 0, 0), isVisible = True, modelError = False \<rparr>"
    by (simp add: tracking_def AROverlay_effect_def scenario_landmarks_def square_video_def
          AROverlay_model_init_def Let_def)
  have m: "overlay_run ?e [Props (Some moved_landmarks) (Some square_video)] =
      \<lparr> leftEarPos = (0.5, 0, 0), rightEarPos = (- 0.5, 0, 0),
        faceRotation = (0, 0, 0), isVisible = True, modelError = True \<rparr>"
    by (simp add: t overlay_run_def Canvas_onError_def AROverlay_effect_def moved_landmarks_def
          square_video_def Let_def)
  note c8 = C8_fallback[of gold_hoops tracking]
  from c8 have e: "modelError ?e" by blast
  with C8_fallback[of gold_hoops ?e]
  have r0: "AROverlay_model_render (Some gold_hoops) ?e = fallback_render (Some gold_hoops) ?e"
    by blast
  from c8 have "\<forall>steps sel. modelError (overlay_run ?e steps) \<and>
      AROverlay_model_render sel (overlay_run ?e steps) = fallback_render sel (overlay_run ?e steps)"
    by blast
  then have r1: "AROverlay_model_render (Some gold_hoops)
        (overlay_run ?e [Props (Some moved_landmarks) (Some square_video)]) =
      fallback_render (Some gold_hoops)
        (overlay_run ?e [Props (Some moved_landmarks) (Some square_video)])"
    by blast
  have f0: "fallback_render (Some gold_hoops) ?e =
     [ ProceduralEarring (0.4, 0.2, 0.2) (0, 0, 0) 1.5 ''#FFD700'',
       ProceduralEarring (- 0.4, 0.2, 0.2) (0, pi, 0) 1.5 ''#FFD700'' ]"
    by (simp add: t Canvas_onError_def fallback_render_def jewelryScale_def jewelryColor_def
          gold_hoops_def)
  have f1: "fallback_render (Some gold_hoops)
        (overlay_run ?e [Props (Some moved_landmarks) (Some square_video)]) =
     [ ProceduralEarring (0.5, 0, 0) (0, 0, 0) 1.5 ''#FFD700'',
       ProceduralEarring (- 0.5, 0, 0) (0, pi, 0) 1.5 ''#FFD700'' ]"
    by (simp add: m fallback_render_def jewelryScale_def jewelryColor_def gold_hoops_def)
  from e r0 r1 f0 f1 show ?thesis by simp
qed

text \<open>The claim as worded fails in two places. The fallback of a descriptor whose scale
  is 0 is drawn with the scale 1.5, not with its own. And the failure is not recorded for
  a descriptor: after one canvas error, a descriptor that has a model path and is selected
  only afterwards, drawn as a loaded model before the error, is drawn as the fallback too.\<close>

theorem C8_counterexample:
  "scale flat_ring = 0 \<and>
   AROverlay_model_render (Some flat_ring) tracking =
     [ ProceduralEarring (0.4, 0.2, 0.2) (0, 0, 0) 1.5 ''#C0C0C0'',
       ProceduralEarring (- 0.4, 0.2, 0.2) (0, pi, 0) 1.5 ''#C0C0C0'' ] \<and>
   AROverlay_model_render (Some silver_studs) tracking =
     [ Suspense (LoadingEarring (0.4, 0.2, 0.2))
         (ModelEarring ''/models/silver-stud-earring.glb'' (0.4, 0.2, 0.2) (0, 0, 0) 1.2),
       Suspense (LoadingEarring (- 0.4, 0.2, 0.2))
         (ModelEarring ''/models/silver-stud-earring.glb'' (- 0.4, 0.2, 0.2) (0, pi, 0) 1.2) ] \<and>
   AROverlay_model_render (Some silver_studs) (Canvas_onError tracking) =
     [ ProceduralEarring (0.4, 0.2, 0.2) (0, 0, 0) 1.2 ''#C0C0C0'',
       ProceduralEarring (- 0.4, 0.2, 0.2) (0, pi, 0) 1.2 ''#C0C0C0'' ]"
proof -
  have t: "tracking = \<lparr> leftEarPos = (0.4, 0.2, 0.2), rightEarPos = (- 0.4, 0.2, 0.2),
      faceRotation = (0, 0, 0), isVisible = True, modelError = False \<rparr>"
    by (simp add: tracking_def AROverlay_effect_def scenario_landmarks_def square_video_def
          AROverlay_model_init_def Let_def)
  show ?thesis
    by (simp add: t Canvas_onError_def AROverlay_model_render_def Earring_def Let_def
          jewelryScale_def jewelryColor_def flat_ring_def silver_studs_def)
qed

end
